theory Spec2Isabelle
  imports Complex_Main "HOL-Library.AList"
begin

section \<open>Numbers\<close>

text \<open>
  The source computes with JavaScript numbers. The quantities it is handed are integers
  (a confidence from the 1..5 slider, lengths of arrays, differences of millisecond clock
  readings); they are \<open>int\<close> and \<open>nat\<close> here. Means of them are exact rationals, together
  with the three special values a division by a zero length produces. Rounding of
  doubles is not modelled: every finite result is the exact quotient.
\<close>

datatype jsnum = Fin rat | PosInf | NegInf | NaN

fun js_add :: "jsnum \<Rightarrow> jsnum \<Rightarrow> jsnum" where
  "js_add NaN y = NaN"
| "js_add (Fin a) NaN = NaN"
| "js_add PosInf NaN = NaN"
| "js_add NegInf NaN = NaN"
| "js_add (Fin a) (Fin b) = Fin (a + b)"
| "js_add (Fin a) PosInf = PosInf"
| "js_add (Fin a) NegInf = NegInf"
| "js_add PosInf (Fin b) = PosInf"
| "js_add PosInf PosInf = PosInf"
| "js_add PosInf NegInf = NaN"
| "js_add NegInf (Fin b) = NegInf"
| "js_add NegInf NegInf = NegInf"
| "js_add NegInf PosInf = NaN"

text \<open>Division by the length of an array: the divisor is a non-negative integer, and a
  zero divisor is the positive zero.\<close>

fun js_div_len :: "jsnum \<Rightarrow> nat \<Rightarrow> jsnum" where
  "js_div_len NaN n = NaN"
| "js_div_len PosInf n = PosInf"
| "js_div_len NegInf n = NegInf"
| "js_div_len (Fin a) n =
     (if n = 0 then (if 0 < a then PosInf else if a < 0 then NegInf else NaN)
      else Fin (a / of_nat n))"

text \<open>Comparisons with a finite constant; every comparison with NaN is false.\<close>

fun js_ge :: "jsnum \<Rightarrow> rat \<Rightarrow> bool" where
  "js_ge (Fin a) r = (r \<le> a)"
| "js_ge PosInf r = True"
| "js_ge NegInf r = False"
| "js_ge NaN r = False"

fun js_le :: "jsnum \<Rightarrow> rat \<Rightarrow> bool" where
  "js_le (Fin a) r = (a \<le> r)"
| "js_le PosInf r = False"
| "js_le NegInf r = True"
| "js_le NaN r = False"

fun js_lt :: "jsnum \<Rightarrow> rat \<Rightarrow> bool" where
  "js_lt (Fin a) r = (a < r)"
| "js_lt PosInf r = False"
| "js_lt NegInf r = True"
| "js_lt NaN r = False"

section \<open>Data model of the analytics object\<close>

text \<open>\<open>Omit<ConceptAttempt, 'timestamp'>\<close>, the argument of \<open>trackConceptAttempt\<close>.\<close>

record AttemptData =
  confidence :: int
  questionsCorrect :: nat
  questionsTotal :: nat
  timeSpent :: int
  usedChat :: bool
  triggeredAdaptiveHelp :: bool

record ConceptAttempt = AttemptData +
  timestamp_a :: int

record ConceptPerformance =
  attempts :: "ConceptAttempt list"
  totalTime :: int
  averageConfidence :: rat
  questionAccuracy :: jsnum
  revisits :: nat

record LearnerProfile =
  learningStyle :: "string option"
  pacePreference :: "string option"
  strengthAreas :: "string list"
  struggleAreas :: "string list"
  confidencePattern :: "int list"
  engagementLevel :: string
  preferredExplanationType :: "string option"

text \<open>
  The payload of an event is a free-form object in the source. The model has one
  optional field for each key that a call site of the repository writes; \<open>None\<close> is
  the key being absent (\<open>undefined\<close> when read).
\<close>

record EventData =
  level :: "int option"
  conceptId :: "string option"
  attemptData :: "AttemptData option"
  messageLength :: "nat option"
  questionType :: "string option"
  screen :: "string option"

record AnalyticsEvent =
  timestamp :: int
  sessionId_ev :: string
  eventType :: string
  data :: EventData
  timeInSession :: int

text \<open>The object \<open>conceptPerformance\<close> is an association list in insertion order, which
  is the order \<open>Object.values\<close> and \<open>Object.entries\<close> follow for keys that are not
  array indices (the concept ids are words such as \<open>building-blocks\<close>).\<close>

record LearningAnalytics =
  sessionId :: string
  startTime :: int
  events :: "AnalyticsEvent list"
  conceptPerformance :: "(string \<times> ConceptPerformance) list"
  learnerProfile :: LearnerProfile

section \<open>class LearningAnalytics\<close>

text \<open>The constructor; the generated session id and the clock reading are arguments.\<close>

definition newLearningAnalytics :: "string \<Rightarrow> int \<Rightarrow> LearningAnalytics" where
  "newLearningAnalytics sid now =
     \<lparr> sessionId = sid, startTime = now, events = [], conceptPerformance = [],
       learnerProfile =
         \<lparr> learningStyle = None, pacePreference = None, strengthAreas = [],
           struggleAreas = [], confidencePattern = [], engagementLevel = ''medium'',
           preferredExplanationType = None \<rparr> \<rparr>"

definition calculateAverageTimePerConcept :: "LearningAnalytics \<Rightarrow> rat" where
  "calculateAverageTimePerConcept s =
     (let conceptTimes = map (\<lambda>c. totalTime (snd c)) (conceptPerformance s)
      in if length conceptTimes = 0 then 90000
         else of_int (foldl (\<lambda>a b. a + b) 0 conceptTimes) / of_nat (length conceptTimes))"

text \<open>One iteration of the loop of \<open>updateStrengthsAndStruggles\<close>, on the two lists.\<close>

definition classify_step ::
  "string list \<times> string list \<Rightarrow> string \<times> ConceptPerformance \<Rightarrow> string list \<times> string list" where
  "classify_step acc e =
     (if 4 \<le> averageConfidence (snd e) \<and> js_ge (questionAccuracy (snd e)) (4 / 5)
      then (fst acc @ [fst e], snd acc)
      else if averageConfidence (snd e) \<le> 2 \<or> js_lt (questionAccuracy (snd e)) (1 / 2)
      then (fst acc, snd acc @ [fst e])
      else acc)"

definition updateStrengthsAndStruggles :: "LearningAnalytics \<Rightarrow> LearningAnalytics" where
  "updateStrengthsAndStruggles s =
     (let r = foldl classify_step ([], []) (conceptPerformance s)
      in s\<lparr>learnerProfile := (learnerProfile s)\<lparr>strengthAreas := fst r, struggleAreas := snd r\<rparr>\<rparr>)"

text \<open>\<open>xs.slice(-n)\<close>: the last \<open>n\<close> elements, all of them when there are fewer.\<close>

definition slice_last :: "nat \<Rightarrow> 'a list \<Rightarrow> 'a list" where
  "slice_last n xs = drop (length xs - n) xs"

text \<open>\<open>e.data.level\<close> as a summand: an absent level is \<open>undefined\<close>, and a number plus
  \<open>undefined\<close> is NaN.\<close>

definition level_num :: "AnalyticsEvent \<Rightarrow> jsnum" where
  "level_num e = (case level (data e) of None \<Rightarrow> NaN | Some l \<Rightarrow> Fin (of_int l))"

definition visualInteractions :: "LearningAnalytics \<Rightarrow> nat" where
  "visualInteractions s =
     length (filter (\<lambda>e. eventType e = ''visual_interaction'' \<or> eventType e = ''3d_rotation'')
       (events s))"

definition chatInteractions :: "LearningAnalytics \<Rightarrow> nat" where
  "chatInteractions s = length (filter (\<lambda>e. eventType e = ''chat_message'') (events s))"

definition recentConfidences :: "LearningAnalytics \<Rightarrow> jsnum list" where
  "recentConfidences s =
     map level_num (slice_last 5 (filter (\<lambda>e. eventType e = ''confidence_set'') (events s)))"

text \<open>\<open>analyzePatterns\<close> has four blocks, run in this order; each is a definition here.
  (Its first line takes the last 20 events into a constant that is never read.)\<close>

definition analyzePace :: "LearningAnalytics \<Rightarrow> LearningAnalytics" where
  "analyzePace s =
     (let avgTimePerConcept = calculateAverageTimePerConcept s
      in s\<lparr>learnerProfile := (learnerProfile s)\<lparr>pacePreference :=
             (if 180000 < avgTimePerConcept then Some ''slow''
              else if avgTimePerConcept < 60000 then Some ''fast''
              else Some ''medium'')\<rparr>\<rparr>)"

definition analyzeStyle :: "LearningAnalytics \<Rightarrow> LearningAnalytics" where
  "analyzeStyle s =
     s\<lparr>learnerProfile := (learnerProfile s)\<lparr>learningStyle :=
         (if chatInteractions s * 2 < visualInteractions s then Some ''visual''
          else if visualInteractions s * 2 < chatInteractions s then Some ''reading''
          else Some ''mixed'')\<rparr>\<rparr>"

definition analyzeEngagement :: "LearningAnalytics \<Rightarrow> LearningAnalytics" where
  "analyzeEngagement s =
     (let rc = recentConfidences s
      in if 0 < length rc
         then (let avgConfidence = js_div_len (foldl js_add (Fin 0) rc) (length rc)
               in s\<lparr>learnerProfile := (learnerProfile s)\<lparr>engagementLevel :=
                    (if js_ge avgConfidence 4 then ''high''
                     else if js_le avgConfidence 2 then ''low''
                     else ''medium'')\<rparr>\<rparr>)
         else s)"

definition analyzePatterns :: "LearningAnalytics \<Rightarrow> LearningAnalytics" where
  "analyzePatterns s =
     analyzeEngagement (updateStrengthsAndStruggles (analyzeStyle (analyzePace s)))"

text \<open>\<open>trackEvent\<close> reads the clock twice; both readings are arguments. It returns the
  event it appended, next to the updated object.\<close>

definition trackEvent ::
  "int \<Rightarrow> int \<Rightarrow> string \<Rightarrow> EventData \<Rightarrow> LearningAnalytics \<Rightarrow> AnalyticsEvent \<times> LearningAnalytics" where
  "trackEvent now1 now2 ty d s =
     (let event = \<lparr> timestamp = now1, sessionId_ev = sessionId s, eventType = ty, data = d,
                     timeInSession = now2 - startTime s \<rparr>
      in (event, analyzePatterns (s\<lparr>events := events s @ [event]\<rparr>)))"

definition emptyPerformance :: ConceptPerformance where
  "emptyPerformance =
     \<lparr> attempts = [], totalTime = 0, averageConfidence = 0, questionAccuracy = Fin 0,
       revisits = 0 \<rparr>"

text \<open>The aggregates of \<open>trackConceptAttempt\<close>, recomputed over the whole attempt list.\<close>

definition confidenceMean :: "ConceptAttempt list \<Rightarrow> rat" where
  "confidenceMean as =
     of_int (foldl (\<lambda>sum a. sum + confidence a) 0 as) / of_nat (length as)"

definition accuracyMean :: "ConceptAttempt list \<Rightarrow> jsnum" where
  "accuracyMean as =
     js_div_len
       (foldl (\<lambda>sum a. js_add sum (js_div_len (Fin (of_nat (questionsCorrect a))) (questionsTotal a)))
          (Fin 0) as)
       (length as)"

definition trackConceptAttempt ::
  "int \<Rightarrow> int \<Rightarrow> int \<Rightarrow> string \<Rightarrow> AttemptData \<Rightarrow> LearningAnalytics \<Rightarrow> LearningAnalytics" where
  "trackConceptAttempt now0 now1 now2 cid d s =
     (let perf0 = (case map_of (conceptPerformance s) cid of
                     None \<Rightarrow> emptyPerformance | Some p \<Rightarrow> p);
          as = attempts perf0 @
                 [\<lparr> confidence = confidence d, questionsCorrect = questionsCorrect d,
                    questionsTotal = questionsTotal d, timeSpent = timeSpent d,
                    usedChat = usedChat d, triggeredAdaptiveHelp = triggeredAdaptiveHelp d,
                    timestamp_a = now0 \<rparr>];
          perf = \<lparr> attempts = as,
                   totalTime = totalTime perf0 + timeSpent d,
                   averageConfidence = confidenceMean as,
                   questionAccuracy = accuracyMean as,
                   revisits = (if 1 < length as then revisits perf0 + 1 else revisits perf0) \<rparr>;
          s1 = s\<lparr>conceptPerformance := AList.update cid perf (conceptPerformance s)\<rparr>
      in snd (trackEvent now1 now2 ''concept_attempt''
                \<lparr> level = None, conceptId = Some cid, attemptData = Some d,
                  messageLength = None, questionType = None, screen = None \<rparr> s1))"

text \<open>A session of the analytics object is a sequence of calls of its two tracking
  methods, each with the clock readings it sees.\<close>

datatype call =
  TrackEvent int int string EventData
| TrackConceptAttempt int int int string AttemptData

fun do_call :: "LearningAnalytics \<Rightarrow> call \<Rightarrow> LearningAnalytics" where
  "do_call s (TrackEvent n1 n2 ty d) = snd (trackEvent n1 n2 ty d s)"
| "do_call s (TrackConceptAttempt n0 n1 n2 cid d) = trackConceptAttempt n0 n1 n2 cid d s"

definition run_calls :: "string \<Rightarrow> int \<Rightarrow> call list \<Rightarrow> LearningAnalytics" where
  "run_calls sid now cs = foldl do_call (newLearningAnalytics sid now) cs"

text \<open>\<open>xs.join(sep)\<close> on an array of strings.\<close>

fun join_with :: "string \<Rightarrow> string list \<Rightarrow> string" where
  "join_with sep [] = []"
| "join_with sep [x] = x"
| "join_with sep (x # y # ys) = x @ sep @ join_with sep (y # ys)"

record Recommendation =
  type_r :: string
  message_r :: string
  priority :: string

text \<open>\<open>getRecommendations\<close> pushes onto an array that starts empty.\<close>

definition getRecommendations :: "LearningAnalytics \<Rightarrow> Recommendation list" where
  "getRecommendations s =
     (let r0 = [];
          r1 = (if 0 < length (struggleAreas (learnerProfile s))
                then r0 @ [\<lparr> type_r = ''review'',
                             message_r = ''Consider reviewing: '' @
                               join_with '', '' (struggleAreas (learnerProfile s)),
                             priority = ''high'' \<rparr>]
                else r0);
          r2 = (if pacePreference (learnerProfile s) = Some ''slow''
                then r1 @ [\<lparr> type_r = ''pace'',
                             message_r = ''Take your time - depth of understanding is more important than speed'',
                             priority = ''medium'' \<rparr>]
                else r1);
          r3 = (if learningStyle (learnerProfile s) = Some ''visual''
                then r2 @ [\<lparr> type_r = ''style'',
                             message_r = ''You learn well visually - spend more time with 3D models'',
                             priority = ''low'' \<rparr>]
                else r2)
      in r3)"

section \<open>Data model of the application component\<close>

record KnowledgeCheck =
  id_k :: string
  question :: string
  options :: "string list"
  correct :: int
  explanation_k :: string

record Concept =
  id_c :: string
  title :: string
  wisdom :: string
  explanation :: string
  visualType :: string
  orbitalType :: "string option"
  knowledgeChecks :: "KnowledgeCheck list"

record Module =
  title_m :: string
  concepts :: "Concept list"

record HistoryEntry =
  id_h :: string
  confidence_h :: int
  knowledgeCheckScore :: rat
  timestamp_h :: string

record Progress =
  completedConcepts :: nat
  totalConcepts :: nat
  confidenceScores :: "int list"
  strengths :: "string list"
  needsWork :: "string list"
  conceptHistory :: "HistoryEntry list"

datatype role = User | Assistant

record ChatMessage =
  role :: role
  content :: string

text \<open>
  The texts of the adaptive help are long literals of the source. They are represented by
  what selects them. \<open>NoMessage\<close> and \<open>NoExplanation\<close> are the empty string the help content
  starts with; every other constructor stands for a non-empty text. The two tables of
  alternative explanations of \<open>triggerAdaptiveHelp\<close> hold the same text for each of the
  twelve concept ids they list, and differ in one word of their final \<open>else\<close> branch.
\<close>

datatype help_message =
  NoMessage
| ConfusedAndMissed
| ConfusedButCorrect
| MissedQuestions nat

datatype suggestion =
  SimplerAnalogy
| ReviewPreviousConcept
| ExplainInDifferentWay
| AskAboutUnclearPart
| SeeExplainedDifferently
| ReviewVisualAgain
| Revisit string

datatype alt_explanation =
  NoExplanation
| AnalogyFor string
| PartyAnalogy
| PartyAnalogyVariant

record AdaptiveHelpContent =
  type_h :: string
  message_h :: help_message
  suggestions :: "suggestion list"
  alternativeExplanation :: alt_explanation

datatype screen = Welcome | Learning | Complete

text \<open>The state of the component \<open>KyOrdaApp\<close> that the navigation handlers read or write,
  with the analytics object the component owns.\<close>

record AppState =
  currentScreen :: screen
  currentModule :: nat
  currentConcept :: nat
  showChat :: bool
  chatHistory :: "ChatMessage list"
  confidenceLevel :: int
  knowledgeCheckAnswers :: "string \<rightharpoonup> int"
  showAdaptiveHelp :: bool
  adaptiveHelpContent :: "AdaptiveHelpContent option"
  conceptStartTime :: int
  analytics :: LearningAnalytics
  progress :: Progress

text \<open>What one completion of a concept reads from the environment: the clock of
  \<open>handleConceptComplete\<close>, the three clock readings inside \<open>trackConceptAttempt\<close>, and
  the ISO date of the history entry.\<close>

record Clock =
  now_complete :: int
  now_attempt :: int
  now_event1 :: int
  now_event2 :: int
  iso_now :: string

datatype error = TypeError

section \<open>Navigation handlers\<close>

text \<open>\<open>modules[currentModule]?.concepts[currentConcept]\<close>; \<open>None\<close> is \<open>undefined\<close>.\<close>

definition currentConceptData :: "Module list \<Rightarrow> AppState \<Rightarrow> Concept option" where
  "currentConceptData mods s =
     (if currentModule s < length mods
      then (if currentConcept s < length (concepts (mods ! currentModule s))
            then Some (concepts (mods ! currentModule s) ! currentConcept s)
            else None)
      else None)"

definition answered_correctly :: "(string \<rightharpoonup> int) \<Rightarrow> KnowledgeCheck \<Rightarrow> bool" where
  "answered_correctly answers c = (answers (id_k c) = Some (correct c))"

definition calculateKnowledgeCheckScore :: "Concept \<Rightarrow> (string \<rightharpoonup> int) \<Rightarrow> rat" where
  "calculateKnowledgeCheckScore c answers =
     (let checks = knowledgeChecks c
      in if length checks = 0 then 1
         else of_nat (foldl (\<lambda>n check. if answered_correctly answers check then n + 1 else n)
                        (0::nat) checks)
              / of_nat (length checks))"

definition handleConceptComplete :: "Clock \<Rightarrow> Concept \<Rightarrow> AppState \<Rightarrow> AppState" where
  "handleConceptComplete cl c s =
     (let cid = id_c c;
          score = calculateKnowledgeCheckScore c (knowledgeCheckAnswers s);
          spent = now_complete cl - conceptStartTime s;
          checks = knowledgeChecks c;
          nCorrect = length (filter (answered_correctly (knowledgeCheckAnswers s)) checks);
          a = trackConceptAttempt (now_attempt cl) (now_event1 cl) (now_event2 cl) cid
                \<lparr> confidence = confidenceLevel s, questionsCorrect = nCorrect,
                  questionsTotal = length checks, timeSpent = spent,
                  usedChat = (0 < length (chatHistory s)), triggeredAdaptiveHelp = False \<rparr>
                (analytics s);
          prev = progress s
      in s\<lparr> analytics := a,
            progress := prev
              \<lparr> completedConcepts := completedConcepts prev + 1,
                conceptHistory := conceptHistory prev @
                  [\<lparr> id_h = cid, confidence_h = confidenceLevel s,
                     knowledgeCheckScore = score, timestamp_h = iso_now cl \<rparr>],
                confidenceScores := confidenceScores prev @ [confidenceLevel s],
                strengths := (if 4 \<le> confidenceLevel s \<and> 4 / 5 \<le> score
                              then strengths prev @ [title c] else strengths prev),
                needsWork := (if confidenceLevel s \<le> 2 \<or> score < 1 / 2
                              then needsWork prev @ [title c] else needsWork prev) \<rparr> \<rparr>)"

definition listed_concept_ids :: "string list" where
  "listed_concept_ids =
     [''building-blocks'', ''electron-deep-dive'', ''stability-rule'', ''carbon-nucleus'',
      ''electron-shells'', ''orbital-shapes'', ''electron-configuration'',
      ''valence-electrons'', ''bonding-power'', ''oxygen-glucose'', ''nitrogen-glycine'',
      ''grand-connection'']"

definition triggerAdaptiveHelp :: "Concept \<Rightarrow> rat \<Rightarrow> AppState \<Rightarrow> AppState" where
  "triggerAdaptiveHelp c score s =
     (let missedQuestions =
            filter (\<lambda>check. \<not> answered_correctly (knowledgeCheckAnswers s) check)
              (knowledgeChecks c);
          h0 = \<lparr> type_h = ''struggling'', message_h = NoMessage, suggestions = [],
                 alternativeExplanation = NoExplanation \<rparr>;
          helpContent =
            (if confidenceLevel s \<le> 2 \<and> score < 1 / 2
             then h0\<lparr> message_h := ConfusedAndMissed,
                       suggestions := [SimplerAnalogy, ReviewPreviousConcept, ExplainInDifferentWay],
                       alternativeExplanation :=
                         (if id_c c \<in> set listed_concept_ids then AnalogyFor (id_c c)
                          else PartyAnalogy) \<rparr>
             else if confidenceLevel s \<le> 2
             then h0\<lparr> message_h := ConfusedButCorrect,
                       suggestions := [AskAboutUnclearPart, SeeExplainedDifferently, ReviewVisualAgain],
                       alternativeExplanation :=
                         (if id_c c \<in> set listed_concept_ids then AnalogyFor (id_c c)
                          else PartyAnalogyVariant) \<rparr>
             else if score < 1 / 2
             then h0\<lparr> message_h := MissedQuestions (length missedQuestions),
                       suggestions := map (\<lambda>q. Revisit (question q)) missedQuestions \<rparr>
             else h0)
      in s\<lparr> adaptiveHelpContent := Some helpContent, showAdaptiveHelp := True \<rparr>)"

text \<open>
  A handler reads the state of the render it was created in and queues its updates; the
  result is the state of the next render. When there is no current concept, the first
  access to \<open>currentConceptData\<close> throws and nothing is updated.
\<close>

definition handleNext :: "Module list \<Rightarrow> Clock \<Rightarrow> AppState \<Rightarrow> error + AppState" where
  "handleNext mods cl s =
     (case currentConceptData mods s of
        None \<Rightarrow> Inl TypeError
      | Some c \<Rightarrow>
         (let score = calculateKnowledgeCheckScore c (knowledgeCheckAnswers s);
              isStruggling = (confidenceLevel s \<le> 2 \<or> score < 1 / 2)
          in if isStruggling then Inr (triggerAdaptiveHelp c score s)
             else
               (let s1 = handleConceptComplete cl c s;
                    s2 = (if int (currentConcept s) <
                               int (length (concepts (mods ! currentModule s))) - 1
                          then s1\<lparr> currentConcept := currentConcept s + 1 \<rparr>
                          else if int (currentModule s) < int (length mods) - 1
                          then s1\<lparr> currentModule := currentModule s + 1, currentConcept := 0 \<rparr>
                          else s1\<lparr> currentScreen := Complete \<rparr>)
                in Inr (s2\<lparr> confidenceLevel := 3, chatHistory := [],
                           knowledgeCheckAnswers := Map.empty, showAdaptiveHelp := False,
                           adaptiveHelpContent := None \<rparr>))))"

text \<open>The button "I'm Ready - Continue to Next Concept" of the adaptive help.\<close>

definition onClick_ImReady :: "Module list \<Rightarrow> Clock \<Rightarrow> AppState \<Rightarrow> error + AppState" where
  "onClick_ImReady mods cl s =
     (case currentConceptData mods s of
        None \<Rightarrow> Inl TypeError
      | Some c \<Rightarrow>
         (let s0 = s\<lparr> showAdaptiveHelp := False \<rparr>;
              s1 = handleConceptComplete cl c s0;
              s2 = (if int (currentConcept s) <
                         int (length (concepts (mods ! currentModule s))) - 1
                    then s1\<lparr> currentConcept := currentConcept s + 1 \<rparr>
                    else if int (currentModule s) < int (length mods) - 1
                    then s1\<lparr> currentModule := currentModule s + 1, currentConcept := 0 \<rparr>
                    else s1\<lparr> currentScreen := Complete \<rparr>)
          in Inr (s2\<lparr> confidenceLevel := 3, chatHistory := [],
                     knowledgeCheckAnswers := Map.empty \<rparr>)))"

text \<open>The button "Skip Anyway (Not Recommended)" of the adaptive help.\<close>

definition onClick_SkipAnyway :: "Module list \<Rightarrow> Clock \<Rightarrow> AppState \<Rightarrow> error + AppState" where
  "onClick_SkipAnyway mods cl s =
     (case currentConceptData mods s of
        None \<Rightarrow> Inl TypeError
      | Some c \<Rightarrow>
         (let s0 = s\<lparr> showAdaptiveHelp := False \<rparr>;
              s1 = handleConceptComplete cl c s0;
              s2 = (if int (currentConcept s) <
                         int (length (concepts (mods ! currentModule s))) - 1
                    then s1\<lparr> currentConcept := currentConcept s + 1 \<rparr>
                    else if int (currentModule s) < int (length mods) - 1
                    then s1\<lparr> currentModule := currentModule s + 1, currentConcept := 0 \<rparr>
                    else s1\<lparr> currentScreen := Complete \<rparr>)
          in Inr (s2\<lparr> confidenceLevel := 3, chatHistory := [],
                     knowledgeCheckAnswers := Map.empty \<rparr>)))"

section \<open>Vocabulary of the properties\<close>

text \<open>The accuracy ratio of one attempt as an exact quotient, for attempts with at least
  one question.\<close>

definition ratio :: "'a AttemptData_scheme \<Rightarrow> rat" where
  "ratio a = of_nat (questionsCorrect a) / of_nat (questionsTotal a)"

text \<open>The attempts that \<open>handleConceptComplete\<close> produces for a concept with knowledge
  checks: a confidence from the slider, and a count of correct answers that is taken from
  the same non-empty list as the total.\<close>

definition valid_attempt :: "'a AttemptData_scheme \<Rightarrow> bool" where
  "valid_attempt a =
     (1 \<le> confidence a \<and> confidence a \<le> 5 \<and> 0 < questionsTotal a \<and>
      questionsCorrect a \<le> questionsTotal a)"

fun valid_call :: "call \<Rightarrow> bool" where
  "valid_call (TrackEvent n1 n2 ty d) = True"
| "valid_call (TrackConceptAttempt n0 n1 n2 cid d) = valid_attempt d"

fun in_unit_interval :: "jsnum \<Rightarrow> bool" where
  "in_unit_interval (Fin a) = (0 \<le> a \<and> a \<le> 1)"
| "in_unit_interval PosInf = False"
| "in_unit_interval NegInf = False"
| "in_unit_interval NaN = False"

text \<open>The entry of a concept as \<open>trackConceptAttempt\<close> reads it, and the attempt as it
  stores it.\<close>

definition performance_of :: "LearningAnalytics \<Rightarrow> string \<Rightarrow> ConceptPerformance" where
  "performance_of s cid =
     (case map_of (conceptPerformance s) cid of None \<Rightarrow> emptyPerformance | Some p \<Rightarrow> p)"

definition stored :: "int \<Rightarrow> AttemptData \<Rightarrow> ConceptAttempt" where
  "stored now0 d =
     \<lparr> confidence = confidence d, questionsCorrect = questionsCorrect d,
       questionsTotal = questionsTotal d, timeSpent = timeSpent d,
       usedChat = usedChat d, triggeredAdaptiveHelp = triggeredAdaptiveHelp d,
       timestamp_a = now0 \<rparr>"

text \<open>What every stored entry satisfies when all attempts were valid.\<close>

definition performance_ok :: "ConceptPerformance \<Rightarrow> bool" where
  "performance_ok p =
     (attempts p \<noteq> [] \<and> list_all valid_attempt (attempts p) \<and>
      averageConfidence p = confidenceMean (attempts p) \<and>
      questionAccuracy p = accuracyMean (attempts p))"

text \<open>A small session: two attempts at one concept and a slider event between them.\<close>

definition two_attempts :: "call list" where
  "two_attempts =
     [TrackConceptAttempt 1000 1001 1002 ''electron-shells''
        \<lparr>confidence = 4, questionsCorrect = 1, questionsTotal = 2, timeSpent = 70000,
          usedChat = False, triggeredAdaptiveHelp = False\<rparr>,
      TrackEvent 2000 2001 ''confidence_set''
        \<lparr>level = Some 5, conceptId = Some ''electron-shells'', attemptData = None,
          messageLength = None, questionType = None, screen = None\<rparr>,
      TrackConceptAttempt 3000 3001 3002 ''electron-shells''
        \<lparr>confidence = 5, questionsCorrect = 2, questionsTotal = 2, timeSpent = 50000,
          usedChat = True, triggeredAdaptiveHelp = False\<rparr>]"

section \<open>Vocabulary of the profile estimator\<close>

text \<open>The two classifications of a concept, in the words of the specification.\<close>

definition is_strength :: "ConceptPerformance \<Rightarrow> bool" where
  "is_strength p = (4 \<le> averageConfidence p \<and> js_ge (questionAccuracy p) (4 / 5))"

definition is_struggle :: "ConceptPerformance \<Rightarrow> bool" where
  "is_struggle p = (averageConfidence p \<le> 2 \<or> js_lt (questionAccuracy p) (1 / 2))"

text \<open>The mean of the total times of the concepts attempted so far, in milliseconds, and
  the pace read off it.\<close>

definition mean_time :: "(string \<times> ConceptPerformance) list \<Rightarrow> rat" where
  "mean_time cp = of_int (sum_list (map (\<lambda>c. totalTime (snd c)) cp)) / of_nat (length cp)"

definition pace_of :: "(string \<times> ConceptPerformance) list \<Rightarrow> string" where
  "pace_of cp =
     (if cp = [] then ''medium''
      else if mean_time cp < 60000 then ''fast''
      else if 180000 < mean_time cp then ''slow''
      else ''medium'')"

text \<open>Events are counted by their type over the whole log; a visual interaction is an
  event of type \<open>visual_interaction\<close> or \<open>3d_rotation\<close>.\<close>

definition count_type :: "string \<Rightarrow> AnalyticsEvent list \<Rightarrow> nat" where
  "count_type ty es = length (filter (\<lambda>e. eventType e = ty) es)"

definition style_of :: "AnalyticsEvent list \<Rightarrow> string" where
  "style_of es =
     (let visual = count_type ''visual_interaction'' es + count_type ''3d_rotation'' es;
          chat = count_type ''chat_message'' es
      in if 2 * chat < visual then ''visual''
         else if 2 * visual < chat then ''reading''
         else ''mixed'')"

text \<open>The levels of the last five \<open>confidence_set\<close> events and their mean. There is no
  mean when there is no such event or one of the five carries no level.\<close>

definition recent_levels :: "AnalyticsEvent list \<Rightarrow> int option list" where
  "recent_levels es =
     map (\<lambda>e. level (data e)) (slice_last 5 (filter (\<lambda>e. eventType e = ''confidence_set'') es))"

definition mean_level :: "int option list \<Rightarrow> rat option" where
  "mean_level ls =
     (if ls = [] \<or> None \<in> set ls then None
      else Some (of_int (sum_list (map the ls)) / of_nat (length ls)))"

definition engagement_of :: "AnalyticsEvent list \<Rightarrow> string" where
  "engagement_of es =
     (case mean_level (recent_levels es) of
        None \<Rightarrow> ''medium''
      | Some m \<Rightarrow> if 4 \<le> m then ''high'' else if m \<le> 2 then ''low'' else ''medium'')"

text \<open>The whole profile as a function of the event log and the performance map.\<close>

definition estimate_profile ::
  "AnalyticsEvent list \<Rightarrow> (string \<times> ConceptPerformance) list \<Rightarrow> LearnerProfile" where
  "estimate_profile es cp =
     \<lparr> learningStyle = Some (style_of es), pacePreference = Some (pace_of cp),
       strengthAreas = map fst (filter (\<lambda>e. is_strength (snd e)) cp),
       struggleAreas = map fst (filter (\<lambda>e. is_struggle (snd e)) cp),
       confidencePattern = [], engagementLevel = engagement_of es,
       preferredExplanationType = None \<rparr>"

text \<open>What the calls of the tracking methods keep true of the analytics object: the two
  profile fields that no method writes keep their initial values, the engagement level is
  the initial one as long as no slider event was logged, and no concept has two entries.\<close>

definition profile_inv :: "LearningAnalytics \<Rightarrow> bool" where
  "profile_inv s =
     (confidencePattern (learnerProfile s) = [] \<and>
      preferredExplanationType (learnerProfile s) = None \<and>
      (count_type ''confidence_set'' (events s) = 0 \<longrightarrow>
         engagementLevel (learnerProfile s) = ''medium''))"

definition reachable_inv :: "LearningAnalytics \<Rightarrow> bool" where
  "reachable_inv s = (distinct (map fst (conceptPerformance s)) \<and> profile_inv s)"

text \<open>Sessions used as examples.\<close>

definition slider_event :: "int \<Rightarrow> int \<Rightarrow> int \<Rightarrow> call" where
  "slider_event n1 n2 l =
     TrackEvent n1 n2 ''confidence_set''
       \<lparr>level = Some l, conceptId = Some ''electron-shells'', attemptData = None,
         messageLength = None, questionType = None, screen = None\<rparr>"

definition plain_event :: "int \<Rightarrow> string \<Rightarrow> call" where
  "plain_event n ty =
     TrackEvent n n ty
       \<lparr>level = None, conceptId = Some ''building-blocks'', attemptData = None,
         messageLength = None, questionType = None, screen = None\<rparr>"

definition mixed_session :: "call list" where
  "mixed_session =
     [plain_event 100 ''visual_interaction'', plain_event 200 ''3d_rotation'',
      plain_event 300 ''visual_interaction'', plain_event 400 ''chat_message'',
      slider_event 500 500 4, slider_event 600 600 5,
      TrackConceptAttempt 1000 1001 1002 ''building-blocks''
        \<lparr>confidence = 5, questionsCorrect = 2, questionsTotal = 2, timeSpent = 30000,
          usedChat = True, triggeredAdaptiveHelp = False\<rparr>,
      TrackConceptAttempt 2000 2001 2002 ''electron-shells''
        \<lparr>confidence = 1, questionsCorrect = 0, questionsTotal = 2, timeSpent = 40000,
          usedChat = False, triggeredAdaptiveHelp = False\<rparr>]"

section \<open>Vocabulary of the navigation gate\<close>

text \<open>The condition under which \<open>handleNext\<close> shows the adaptive help.\<close>

definition struggling :: "Concept \<Rightarrow> AppState \<Rightarrow> bool" where
  "struggling c s =
     (confidenceLevel s \<le> 2 \<or> calculateKnowledgeCheckScore c (knowledgeCheckAnswers s) < 1 / 2)"

text \<open>The knowledge checks of concept \<open>c\<close> that are not answered correctly in state \<open>s\<close>.\<close>

definition missed_questions :: "Concept \<Rightarrow> AppState \<Rightarrow> KnowledgeCheck list" where
  "missed_questions c s =
     filter (\<lambda>check. \<not> answered_correctly (knowledgeCheckAnswers s) check) (knowledgeChecks c)"

text \<open>The attempt that completing concept \<open>c\<close> in state \<open>s\<close> hands to the analytics object.\<close>

definition attempt_of :: "Clock \<Rightarrow> Concept \<Rightarrow> AppState \<Rightarrow> AttemptData" where
  "attempt_of cl c s =
     \<lparr> confidence = confidenceLevel s,
       questionsCorrect = length (filter (answered_correctly (knowledgeCheckAnswers s)) (knowledgeChecks c)),
       questionsTotal = length (knowledgeChecks c),
       timeSpent = now_complete cl - conceptStartTime s,
       usedChat = (chatHistory s \<noteq> []), triggeredAdaptiveHelp = False \<rparr>"

text \<open>The position after an advancement from concept \<open>k\<close> of module \<open>m\<close>: the next concept
  of the module, else the first concept of the next module, else the same position on the
  completion screen.\<close>

definition next_position :: "Module list \<Rightarrow> nat \<Rightarrow> nat \<Rightarrow> screen \<Rightarrow> nat \<times> nat \<times> screen" where
  "next_position mods m k scr =
     (if k + 1 < length (concepts (mods ! m)) then (m, k + 1, scr)
      else if m + 1 < length mods then (m + 1, 0, scr)
      else (m, k, Complete))"

text \<open>The per-concept interaction state after a reset, and what an advancement keeps of the
  records: the event log and the progress history grow by one entry, and every concept
  that had an entry in the performance map keeps it, with its attempts extended at most.\<close>

definition interaction_reset :: "AppState \<Rightarrow> bool" where
  "interaction_reset s =
     (confidenceLevel s = 3 \<and> chatHistory s = [] \<and> knowledgeCheckAnswers s = Map.empty)"

definition records_kept :: "AppState \<Rightarrow> AppState \<Rightarrow> bool" where
  "records_kept s s' =
     ((\<exists>e. events (analytics s') = events (analytics s) @ [e]) \<and>
      (\<exists>h. conceptHistory (progress s') = conceptHistory (progress s) @ [h]) \<and>
      (\<forall>k p. map_of (conceptPerformance (analytics s)) k = Some p \<longrightarrow>
         (\<exists>p' as. map_of (conceptPerformance (analytics s')) k = Some p' \<and>
                    attempts p' = attempts p @ as)))"

text \<open>A small catalog for examples: a module of two concepts with two knowledge checks
  each, and a module whose only concept has none.\<close>

definition sample_check :: "string \<Rightarrow> string \<Rightarrow> int \<Rightarrow> KnowledgeCheck" where
  "sample_check k q n =
     \<lparr> id_k = k, question = q, options = [''A'', ''B'', ''C'', ''D''], correct = n,
       explanation_k = [] \<rparr>"

definition sample_concept :: "string \<Rightarrow> string \<Rightarrow> KnowledgeCheck list \<Rightarrow> Concept" where
  "sample_concept k t cs =
     \<lparr> id_c = k, title = t, wisdom = [], explanation = [], visualType = ''atomicStructure'',
       orbitalType = None, knowledgeChecks = cs \<rparr>"

definition sample_modules :: "Module list" where
  "sample_modules =
     [\<lparr> title_m = ''Foundation'',
         concepts =
           [sample_concept ''building-blocks'' ''The Building Blocks''
              [sample_check ''bb1'' ''Q1'' 2, sample_check ''bb2'' ''Q2'' 2],
            sample_concept ''electron-deep-dive'' ''The Electron''
              [sample_check ''ed1'' ''Q3'' 1, sample_check ''ed2'' ''Q4'' 2]] \<rparr>,
      \<lparr> title_m = ''Outlook'',
         concepts = [sample_concept ''summary'' ''Summary'' []] \<rparr>]"

definition sample_clock :: Clock where
  "sample_clock =
     \<lparr> now_complete = 61000, now_attempt = 61001, now_event1 = 61002, now_event2 = 61003,
       iso_now = ''2026-01-01T00:01:01.000Z'' \<rparr>"

definition sample_state :: "nat \<Rightarrow> nat \<Rightarrow> int \<Rightarrow> (string \<rightharpoonup> int) \<Rightarrow> AppState" where
  "sample_state m c conf answers =
     \<lparr> currentScreen = Learning, currentModule = m, currentConcept = c, showChat = False,
       chatHistory = [\<lparr> role = User, content = ''why?'' \<rparr>], confidenceLevel = conf,
       knowledgeCheckAnswers = answers, showAdaptiveHelp = False, adaptiveHelpContent = None,
       conceptStartTime = 1000, analytics = newLearningAnalytics ''session_1'' 0,
       progress = \<lparr> completedConcepts = 0, totalConcepts = 3, confidenceScores = [],
                    strengths = [], needsWork = [], conceptHistory = [] \<rparr> \<rparr>"

definition answers_right :: "string \<rightharpoonup> int" where
  "answers_right = [''bb1'' \<mapsto> 2, ''bb2'' \<mapsto> 2, ''ed1'' \<mapsto> 1, ''ed2'' \<mapsto> 2]"


section \<open>What the analysis pass leaves alone\<close>

lemma analyzePatterns_frame:
  "conceptPerformance (analyzePatterns s) = conceptPerformance s"
  "events (analyzePatterns s) = events s"
  "sessionId (analyzePatterns s) = sessionId s"
  "startTime (analyzePatterns s) = startTime s"
  by (simp_all add: analyzePatterns_def analyzeEngagement_def updateStrengthsAndStruggles_def
      analyzeStyle_def analyzePace_def Let_def)

lemma trackEvent_frame:
  "conceptPerformance (snd (trackEvent n1 n2 ty d s)) = conceptPerformance s"
  "events (snd (trackEvent n1 n2 ty d s)) = events s @ [fst (trackEvent n1 n2 ty d s)]"
  "sessionId (snd (trackEvent n1 n2 ty d s)) = sessionId s"
  "startTime (snd (trackEvent n1 n2 ty d s)) = startTime s"
  by (simp_all add: trackEvent_def Let_def analyzePatterns_frame)

section \<open>The concept performance aggregator\<close>

text \<open>The entry that one call of \<open>trackConceptAttempt\<close> writes: the attempt is appended,
  the time is added, both means are taken over the extended list, and the revisit counter
  goes up when there was an earlier attempt.\<close>

lemma trackConceptAttempt_performance:
  "conceptPerformance (trackConceptAttempt n0 n1 n2 cid d s) =
     AList.update cid
       \<lparr> attempts = attempts (performance_of s cid) @ [stored n0 d],
         totalTime = totalTime (performance_of s cid) + timeSpent d,
         averageConfidence = confidenceMean (attempts (performance_of s cid) @ [stored n0 d]),
         questionAccuracy = accuracyMean (attempts (performance_of s cid) @ [stored n0 d]),
         revisits = (if attempts (performance_of s cid) \<noteq> [] then revisits (performance_of s cid) + 1
                     else revisits (performance_of s cid)) \<rparr>
       (conceptPerformance s)"
  by (simp add: trackConceptAttempt_def Let_def trackEvent_frame performance_of_def stored_def)

lemma foldl_confidence:
  "foldl (\<lambda>sum a. sum + confidence a) x as = x + sum_list (map confidence as)"
  by (induction as arbitrary: x) simp_all

lemma foldl_accuracy:
  "\<forall>a \<in> set as. 0 < questionsTotal a \<Longrightarrow>
   foldl (\<lambda>sum a. js_add sum (js_div_len (Fin (of_nat (questionsCorrect a))) (questionsTotal a)))
     (Fin x) as = Fin (x + sum_list (map ratio as))"
  by (induction as arbitrary: x) (simp_all add: ratio_def)

lemma confidenceMean_eq:
  "confidenceMean as = of_int (sum_list (map confidence as)) / of_nat (length as)"
  by (simp add: confidenceMean_def foldl_confidence)

lemma accuracyMean_eq:
  "list_all valid_attempt as \<Longrightarrow> as \<noteq> [] \<Longrightarrow> 
   accuracyMean as = Fin (sum_list (map ratio as) / of_nat (length as))"
proof -
  assume va: "list_all valid_attempt as" and ne: "as \<noteq> []"
  have "\<forall>a \<in> set as. 0 < questionsTotal a"
    using va by (simp add: list_all_iff valid_attempt_def)
  from foldl_accuracy[OF this, of 0] have
    "accuracyMean as = js_div_len (Fin (sum_list (map ratio as))) (length as)"
    unfolding accuracyMean_def by simp
  with ne show ?thesis by simp
qed

lemma sum_confidence_bounds:
  "list_all valid_attempt as \<Longrightarrow>
   int (length as) \<le> sum_list (map confidence as) \<and> sum_list (map confidence as) \<le> 5 * int (length as)"
  by (induction as) (auto simp: valid_attempt_def)

lemma ratio_bounds: "valid_attempt a \<Longrightarrow> 0 \<le> ratio a \<and> ratio a \<le> 1"
  by (simp add: valid_attempt_def ratio_def)

lemma sum_ratio_bounds:
  "list_all valid_attempt as \<Longrightarrow>
   0 \<le> sum_list (map ratio as) \<and> sum_list (map ratio as) \<le> of_nat (length as)"
proof (induction as)
  case Nil
  then show ?case by simp
next
  case (Cons a as)
  then have "0 \<le> ratio a \<and> ratio a \<le> 1" by (simp add: ratio_bounds)
  with Cons show ?case by simp
qed

lemma performance_ok_bounds:
  assumes "performance_ok p"
  shows "in_unit_interval (questionAccuracy p) \<and> 1 \<le> averageConfidence p \<and> averageConfidence p \<le> 5"
proof -
  let ?as = "attempts p"
  from assms have ne: "?as \<noteq> []" and va: "list_all valid_attempt ?as"
    and c: "averageConfidence p = confidenceMean ?as" and q: "questionAccuracy p = accuracyMean ?as"
    by (simp_all add: performance_ok_def)
  have n: "(0::rat) < of_nat (length ?as)" using ne by simp
  have "0 \<le> sum_list (map ratio ?as) / of_nat (length ?as)"
    using sum_ratio_bounds[OF va] n by simp
  moreover have "sum_list (map ratio ?as) / of_nat (length ?as) \<le> 1"
    using sum_ratio_bounds[OF va] n by (simp add: divide_le_eq)
  ultimately have A: "in_unit_interval (questionAccuracy p)"
    by (simp add: q accuracyMean_eq[OF va ne])
  have "(of_int (int (length ?as)) :: rat) \<le> of_int (sum_list (map confidence ?as))"
    using sum_confidence_bounds[OF va] by (simp only: of_int_le_iff)
  then have B: "1 \<le> averageConfidence p"
    using n by (simp add: c confidenceMean_eq le_divide_eq)
  have "(of_int (sum_list (map confidence ?as)) :: rat) \<le> of_int (5 * int (length ?as))"
    using sum_confidence_bounds[OF va] by (simp only: of_int_le_iff)
  then have C: "averageConfidence p \<le> 5"
    using n by (simp add: c confidenceMean_eq divide_le_eq)
  from A B C show ?thesis by simp
qed

lemma set_update_subset: "set (AList.update k v al) \<subseteq> insert (k, v) (set al)"
  by (induction al) auto

lemma do_call_ok:
  assumes "valid_call c" and "\<forall>p \<in> snd ` set (conceptPerformance s). performance_ok p"
  shows "\<forall>p \<in> snd ` set (conceptPerformance (do_call s c)). performance_ok p"
proof (cases c)
  case (TrackEvent n1 n2 ty d)
  with assms show ?thesis by (simp add: trackEvent_frame)
next
  case (TrackConceptAttempt n0 n1 n2 cid d)
  let ?p0 = "performance_of s cid"
  have old: "list_all valid_attempt (attempts ?p0)"
  proof (cases "map_of (conceptPerformance s) cid")
    case None
    then show ?thesis by (simp add: performance_of_def emptyPerformance_def)
  next
    case (Some p)
    then have "p \<in> snd ` set (conceptPerformance s)"
      by (force dest: map_of_SomeD)
    with assms(2) have "performance_ok p" by blast
    with Some show ?thesis by (simp add: performance_of_def performance_ok_def)
  qed
  have new: "valid_attempt (stored n0 d)"
    using assms(1) TrackConceptAttempt by (simp add: valid_attempt_def stored_def)
  show ?thesis
    unfolding TrackConceptAttempt do_call.simps trackConceptAttempt_performance
    using assms(2) old new
    by (auto simp: performance_ok_def dest!: set_mp[OF set_update_subset])
qed

lemma run_calls_ok:
  "list_all valid_call cs \<Longrightarrow> \<forall>p \<in> snd ` set (conceptPerformance s). performance_ok p \<Longrightarrow>
   \<forall>p \<in> snd ` set (conceptPerformance (foldl do_call s cs)). performance_ok p"
proof (induction cs arbitrary: s)
  case Nil
  then show ?case by simp
next
  case (Cons c cs)
  from Cons.prems have "\<forall>p \<in> snd ` set (conceptPerformance (do_call s c)). performance_ok p"
    by (intro do_call_ok) simp_all
  with Cons.IH[of "do_call s c"] Cons.prems(1) show ?case by simp
qed

text \<open>
  Claim C1, as amended. In every session in which each recorded attempt has a confidence
  between 1 and 5, at least one question and no more correct answers than questions, every
  stored entry has a finite \<open>questionAccuracy\<close> in [0,1] and an \<open>averageConfidence\<close> in
  [1,5], after every call.
\<close>

theorem aggregates_in_range:
  assumes "list_all valid_call cs"
    and "map_of (conceptPerformance (run_calls sid now cs)) cid = Some p"
  shows "in_unit_interval (questionAccuracy p) \<and> 1 \<le> averageConfidence p \<and> averageConfidence p \<le> 5"
proof -
  have "\<forall>p \<in> snd ` set (conceptPerformance (newLearningAnalytics sid now)). performance_ok p"
    by (simp add: newLearningAnalytics_def)
  from run_calls_ok[OF assms(1) this]
  have "\<forall>p \<in> snd ` set (conceptPerformance (run_calls sid now cs)). performance_ok p"
    by (simp add: run_calls_def)
  moreover have "p \<in> snd ` set (conceptPerformance (run_calls sid now cs))"
    using assms(2) by (force dest: map_of_SomeD)
  ultimately have "performance_ok p" by blast
  then show ?thesis by (rule performance_ok_bounds)
qed

lemma two_attempts_performance: 
  "map_of (conceptPerformance (run_calls ''session_1'' 0 two_attempts)) ''electron-shells'' = Some
      \<lparr>attempts =
           [\<lparr>confidence = 4, questionsCorrect = 1, questionsTotal = 2,
               timeSpent = 70000, usedChat = False,
               triggeredAdaptiveHelp = False, timestamp_a = 1000\<rparr>,
            \<lparr>confidence = 5, questionsCorrect = 2, questionsTotal = 2,
               timeSpent = 50000, usedChat = True,
               triggeredAdaptiveHelp = False, timestamp_a = 3000\<rparr>],
           totalTime = 120000, averageConfidence = 9 / 2,
           questionAccuracy = Fin (3 / 4), revisits = 1\<rparr>"
  by code_simp

theorem aggregates_in_range_witness:
  "list_all valid_call two_attempts \<and>
   map_of (conceptPerformance (run_calls ''session_1'' 0 two_attempts)) ''electron-shells'' = Some
      \<lparr>attempts =
           [\<lparr>confidence = 4, questionsCorrect = 1, questionsTotal = 2,
               timeSpent = 70000, usedChat = False,
               triggeredAdaptiveHelp = False, timestamp_a = 1000\<rparr>,
            \<lparr>confidence = 5, questionsCorrect = 2, questionsTotal = 2,
               timeSpent = 50000, usedChat = True,
               triggeredAdaptiveHelp = False, timestamp_a = 3000\<rparr>],
           totalTime = 120000, averageConfidence = 9 / 2,
           questionAccuracy = Fin (3 / 4), revisits = 1\<rparr> \<and>
   in_unit_interval (Fin (3 / 4)) \<and> (1::rat) \<le> 9 / 2 \<and> (9::rat) / 2 \<le> 5"
proof -
  have v: "list_all valid_call two_attempts"
    by (simp add: two_attempts_def valid_attempt_def)
  note p = two_attempts_performance
  from aggregates_in_range[OF v p] v p show ?thesis by simp
qed

text \<open>
  Claim C1 as stated only asks for natural numbers \<open>questionsCorrect\<close> and
  \<open>questionsTotal\<close>. The aggregator does not compare them: two correct answers out of
  one question are stored as the accuracy 2.
\<close>

theorem accuracy_above_one_counterexample:
  "map_option questionAccuracy
     (map_of (conceptPerformance
        (trackConceptAttempt 1000 1001 1002 ''electron-shells''
           \<lparr>confidence = 3, questionsCorrect = 2, questionsTotal = 1, timeSpent = 70000,
             usedChat = False, triggeredAdaptiveHelp = False\<rparr>
           (newLearningAnalytics ''session_1'' 0))) ''electron-shells'') = Some (Fin 2)
   \<and> \<not> in_unit_interval (Fin 2)"
  by code_simp

text \<open>
  Claim C2 lets the ratio of an attempt without questions count as 1. The aggregator
  divides all the same: for a first attempt with \<open>questionsTotal = 0\<close> and
  \<open>questionsCorrect = 0\<close> the stored \<open>questionAccuracy\<close> is NaN, not 1.
\<close>

theorem accuracy_of_zero_questions:
  "map_option questionAccuracy
     (map_of (conceptPerformance
        (trackConceptAttempt 1000 1001 1002 ''electron-shells''
           \<lparr>confidence = 3, questionsCorrect = 0, questionsTotal = 0, timeSpent = 70000,
             usedChat = False, triggeredAdaptiveHelp = False\<rparr>
           (newLearningAnalytics ''session_1'' 0))) ''electron-shells'') = Some NaN"
  by code_simp

section \<open>The learner profile estimator\<close>

lemma not_strength_and_struggle: "\<not> (is_strength p \<and> is_struggle p)"
  by (cases "questionAccuracy p") (auto simp: is_strength_def is_struggle_def)

lemma foldl_classify_step:
  "foldl classify_step (a, b) al =
     (a @ map fst (filter (\<lambda>e. is_strength (snd e)) al),
      b @ map fst (filter (\<lambda>e. is_struggle (snd e)) al))"
proof (induction al arbitrary: a b)
  case Nil
  then show ?case by simp
next
  case (Cons e al)
  have "classify_step (a, b) e =
          (if is_strength (snd e) then (a @ [fst e], b)
           else if is_struggle (snd e) then (a, b @ [fst e]) else (a, b))"
    by (simp add: classify_step_def is_strength_def is_struggle_def)
  with Cons.IH not_strength_and_struggle[of "snd e"] show ?case by auto
qed

lemma average_time:
  "calculateAverageTimePerConcept s =
     (if conceptPerformance s = [] then 90000 else mean_time (conceptPerformance s))"
proof -
  have "foldl (\<lambda>a b. a + b) x ts = x + sum_list ts" for x :: int and ts
    by (induction ts arbitrary: x) simp_all
  then show ?thesis
    by (simp add: calculateAverageTimePerConcept_def mean_time_def Let_def)
qed

lemma pace_branches:
  "(if 180000 < calculateAverageTimePerConcept s then Some ''slow''
    else if calculateAverageTimePerConcept s < 60000 then Some ''fast''
    else Some ''medium'') = Some (pace_of (conceptPerformance s))"
  by (simp add: average_time pace_of_def)

lemma visual_count:
  "visualInteractions s =
     count_type ''visual_interaction'' (events s) + count_type ''3d_rotation'' (events s)"
proof -
  have "length (filter (\<lambda>e. eventType e = ''visual_interaction'' \<or> eventType e = ''3d_rotation'') es)
        = length (filter (\<lambda>e. eventType e = ''visual_interaction'') es)
          + length (filter (\<lambda>e. eventType e = ''3d_rotation'') es)" for es :: "AnalyticsEvent list"
    by (induction es) auto
  then show ?thesis by (simp add: visualInteractions_def count_type_def)
qed

lemma style_branches:
  "(if chatInteractions s * 2 < visualInteractions s then Some ''visual''
    else if visualInteractions s * 2 < chatInteractions s then Some ''reading''
    else Some ''mixed'') = Some (style_of (events s))"
  by (simp add: visual_count style_of_def chatInteractions_def count_type_def Let_def mult.commute)

lemma foldl_js_add_NaN: "foldl js_add NaN xs = NaN"
  by (induction xs) simp_all

lemma foldl_levels:
  "foldl js_add (Fin x) (map level_num es) =
     (if None \<in> set (map (\<lambda>e. level (data e)) es) then NaN
      else Fin (x + of_int (sum_list (map (\<lambda>e. the (level (data e))) es))))"
proof (induction es arbitrary: x)
  case Nil
  then show ?case by simp
next
  case (Cons e es)
  show ?case
  proof (cases "level (data e)")
    case None
    then show ?thesis by (simp add: level_num_def foldl_js_add_NaN)
  next
    case (Some l)
    then show ?thesis using Cons.IH[of "x + of_int l"]
      by (auto simp: level_num_def add.assoc)
  qed
qed

lemma engagement_branches:
  assumes "recentConfidences s \<noteq> []"
  shows "(let avg = js_div_len (foldl js_add (Fin 0) (recentConfidences s)) (length (recentConfidences s))
          in if js_ge avg 4 then ''high'' else if js_le avg 2 then ''low'' else ''medium'')
         = engagement_of (events s)"
proof -
  let ?es = "slice_last 5 (filter (\<lambda>e. eventType e = ''confidence_set'') (events s))"
  have rc: "recentConfidences s = map level_num ?es" by (simp add: recentConfidences_def)
  have rl: "recent_levels (events s) = map (\<lambda>e. level (data e)) ?es" by (simp add: recent_levels_def)
  from assms rc have ne: "?es \<noteq> []" by auto
  show ?thesis
  proof (cases "None \<in> set (map (\<lambda>e. level (data e)) ?es)")
    case True
    then have "foldl js_add (Fin 0) (recentConfidences s) = NaN"
      unfolding rc foldl_levels by simp
    moreover have "mean_level (recent_levels (events s)) = None"
      using True unfolding rl mean_level_def by simp
    ultimately show ?thesis by (simp add: engagement_of_def)
  next
    case False
    then have "foldl js_add (Fin 0) (recentConfidences s)
                 = Fin (of_int (sum_list (map (\<lambda>e. the (level (data e))) ?es)))"
      unfolding rc foldl_levels by simp
    moreover have "mean_level (recent_levels (events s))
                     = Some (of_int (sum_list (map (\<lambda>e. the (level (data e))) ?es)) / of_nat (length ?es))"
      using False ne unfolding rl mean_level_def by (simp add: comp_def)
    moreover have "length (recentConfidences s) = length ?es" by (simp add: rc)
    ultimately show ?thesis using ne by (simp add: engagement_of_def)
  qed
qed

lemma slice_last_Nil: "slice_last 5 xs = [] \<longleftrightarrow> xs = []"
  by (cases xs) (simp_all add: slice_last_def)

lemma no_recent:
  "recentConfidences s = [] \<longleftrightarrow> count_type ''confidence_set'' (events s) = 0"
  by (simp add: recentConfidences_def slice_last_Nil count_type_def)

lemma engagement_none:
  "count_type ''confidence_set'' es = 0 \<Longrightarrow> engagement_of es = ''medium''"
  by (simp add: engagement_of_def mean_level_def recent_levels_def slice_last_Nil count_type_def)

lemma analyzePace_profile:
  "learnerProfile (analyzePace s) =
     (learnerProfile s)\<lparr>pacePreference := Some (pace_of (conceptPerformance s))\<rparr>"
  unfolding analyzePace_def Let_def pace_branches by simp

lemma analyzeStyle_profile:
  "learnerProfile (analyzeStyle s) =
     (learnerProfile s)\<lparr>learningStyle := Some (style_of (events s))\<rparr>"
  unfolding analyzeStyle_def style_branches by simp

lemma updateStrengthsAndStruggles_profile:
  "learnerProfile (updateStrengthsAndStruggles s) =
     (learnerProfile s)
       \<lparr> strengthAreas := map fst (filter (\<lambda>e. is_strength (snd e)) (conceptPerformance s)),
         struggleAreas := map fst (filter (\<lambda>e. is_struggle (snd e)) (conceptPerformance s)) \<rparr>"
  by (simp add: updateStrengthsAndStruggles_def Let_def foldl_classify_step)

lemma analyzeEngagement_profile:
  "learnerProfile (analyzeEngagement s) =
     (learnerProfile s)\<lparr>engagementLevel :=
        (if count_type ''confidence_set'' (events s) = 0 then engagementLevel (learnerProfile s)
         else engagement_of (events s))\<rparr>"
proof (cases "recentConfidences s = []")
  case True
  then have "analyzeEngagement s = s" by (simp add: analyzeEngagement_def)
  with True show ?thesis by (simp add: no_recent)
next
  case False
  then have "analyzeEngagement s =
      s\<lparr>learnerProfile := (learnerProfile s)\<lparr>engagementLevel := engagement_of (events s)\<rparr>\<rparr>"
    unfolding analyzeEngagement_def using engagement_branches[OF False]
    by (simp only: Let_def length_greater_0_conv if_True not_False_eq_True simp_thms)
  with False show ?thesis by (simp add: no_recent)
qed

lemma block_frames:
  "events (analyzePace s) = events s"
  "conceptPerformance (analyzePace s) = conceptPerformance s"
  "events (analyzeStyle s) = events s"
  "conceptPerformance (analyzeStyle s) = conceptPerformance s"
  "events (updateStrengthsAndStruggles s) = events s"
  "conceptPerformance (updateStrengthsAndStruggles s) = conceptPerformance s"
  by (simp_all add: analyzePace_def analyzeStyle_def updateStrengthsAndStruggles_def Let_def)

text \<open>One analysis pass rewrites five fields of the profile; the engagement level is
  rewritten only when a slider event has been logged.\<close>

lemma analyzePatterns_profile:
  "learnerProfile (analyzePatterns s) =
     (learnerProfile s)
       \<lparr> learningStyle := Some (style_of (events s)),
         pacePreference := Some (pace_of (conceptPerformance s)),
         strengthAreas := map fst (filter (\<lambda>e. is_strength (snd e)) (conceptPerformance s)),
         struggleAreas := map fst (filter (\<lambda>e. is_struggle (snd e)) (conceptPerformance s)),
         engagementLevel :=
           (if count_type ''confidence_set'' (events s) = 0 then engagementLevel (learnerProfile s)
            else engagement_of (events s)) \<rparr>"
  unfolding analyzePatterns_def analyzeEngagement_profile updateStrengthsAndStruggles_profile
    analyzeStyle_profile analyzePace_profile block_frames
  by (rule LearnerProfile.equality) simp_all

lemma analyzePatterns_areas:
  "strengthAreas (learnerProfile (analyzePatterns s)) =
     map fst (filter (\<lambda>e. is_strength (snd e)) (conceptPerformance s))"
  "struggleAreas (learnerProfile (analyzePatterns s)) =
     map fst (filter (\<lambda>e. is_struggle (snd e)) (conceptPerformance s))"
  by (simp_all add: analyzePatterns_profile)

lemma analyzePatterns_more:
  "LearningAnalytics.more (analyzePatterns s) = LearningAnalytics.more s"
  by (simp add: analyzePatterns_def analyzeEngagement_def updateStrengthsAndStruggles_def
      analyzeStyle_def analyzePace_def Let_def)

lemma analyzePatterns_idem: "analyzePatterns (analyzePatterns s) = analyzePatterns s"
proof (rule LearningAnalytics.equality)
  show "learnerProfile (analyzePatterns (analyzePatterns s)) = learnerProfile (analyzePatterns s)"
    by (rule LearnerProfile.equality)
       (simp_all add: analyzePatterns_profile analyzePatterns_frame)
qed (simp_all add: analyzePatterns_frame analyzePatterns_more)

lemma count_type_append: "count_type ty (es @ fs) = count_type ty es + count_type ty fs"
  by (simp add: count_type_def)

lemma trackEvent_inv:
  assumes "reachable_inv s"
  shows "reachable_inv (snd (trackEvent n1 n2 ty d s))"
  using assms
  by (simp add: reachable_inv_def profile_inv_def trackEvent_def Let_def analyzePatterns_frame
      analyzePatterns_profile count_type_append)

lemma trackConceptAttempt_inv:
  assumes "reachable_inv s"
  shows "reachable_inv (trackConceptAttempt n0 n1 n2 cid d s)"
proof -
  have "reachable_inv (s\<lparr>conceptPerformance := AList.update cid p (conceptPerformance s)\<rparr>)" for p
    using assms by (simp add: reachable_inv_def profile_inv_def distinct_update)
  then show ?thesis
    unfolding trackConceptAttempt_def Let_def by (rule trackEvent_inv)
qed

lemma run_calls_inv: "reachable_inv (run_calls sid now cs)"
proof -
  have "reachable_inv s \<Longrightarrow> reachable_inv (foldl do_call s cs)" for s
  proof (induction cs arbitrary: s)
    case Nil
    then show ?case by simp
  next
    case (Cons c cs)
    have "reachable_inv (do_call s c)"
      using Cons.prems by (cases c) (simp_all add: trackEvent_inv trackConceptAttempt_inv)
    then show ?case using Cons.IH by simp
  qed
  moreover have "reachable_inv (newLearningAnalytics sid now)"
    by (simp add: reachable_inv_def profile_inv_def newLearningAnalytics_def count_type_def)
  ultimately show ?thesis by (simp add: run_calls_def)
qed

lemma profile_of_reachable:
  assumes "reachable_inv s"
  shows "learnerProfile (analyzePatterns s) = estimate_profile (events s) (conceptPerformance s)"
  using assms
  by (intro LearnerProfile.equality)
     (auto simp: analyzePatterns_profile estimate_profile_def reachable_inv_def profile_inv_def
        engagement_none)

lemma filter_keys:
  assumes "distinct (map fst al)"
  shows "k \<in> set (map fst (filter (\<lambda>e. P (snd e)) al)) \<longleftrightarrow> (\<exists>p. map_of al k = Some p \<and> P p)"
  using assms by (force simp: map_of_eq_Some_iff)

lemma mixed_session_profile:
  "learnerProfile (analyzePatterns (run_calls ''session_1'' 0 mixed_session)) =
     \<lparr>learningStyle = Some ''visual'', pacePreference = Some ''fast'',
      strengthAreas = [''building-blocks''], struggleAreas = [''electron-shells''],
      confidencePattern = [], engagementLevel = ''high'', preferredExplanationType = None\<rparr>"
  by code_simp

text \<open>
  Claim C3. After an analysis pass at any point of any session, no concept id is in both
  \<open>strengthAreas\<close> and \<open>struggleAreas\<close>. A concept is a strength exactly when its entry has
  \<open>averageConfidence \<ge> 4\<close> and \<open>questionAccuracy \<ge> 0.8\<close>; it is a struggle exactly when it is
  not a strength and has \<open>averageConfidence \<le> 2\<close> or \<open>questionAccuracy < 0.5\<close>; and no entry
  satisfies both conditions.
\<close>

theorem strengths_and_struggles:
  "set (strengthAreas (learnerProfile (analyzePatterns (run_calls sid now cs)))) \<inter>
   set (struggleAreas (learnerProfile (analyzePatterns (run_calls sid now cs)))) = {}
   \<and> (cid \<in> set (strengthAreas (learnerProfile (analyzePatterns (run_calls sid now cs)))) \<longleftrightarrow>
        (\<exists>p. map_of (conceptPerformance (run_calls sid now cs)) cid = Some p \<and> is_strength p))
   \<and> (cid \<in> set (struggleAreas (learnerProfile (analyzePatterns (run_calls sid now cs)))) \<longleftrightarrow>
        (\<exists>p. map_of (conceptPerformance (run_calls sid now cs)) cid = Some p \<and>
             \<not> is_strength p \<and> is_struggle p))
   \<and> \<not> (is_strength q \<and> is_struggle q)"
proof -
  let ?s = "run_calls sid now cs"
  let ?cp = "conceptPerformance ?s"
  have d: "distinct (map fst ?cp)" using run_calls_inv[of sid now cs] by (simp add: reachable_inv_def)
  have A: "k \<in> set (strengthAreas (learnerProfile (analyzePatterns ?s))) \<longleftrightarrow>
        (\<exists>p. map_of ?cp k = Some p \<and> is_strength p)" for k
    unfolding analyzePatterns_areas by (rule filter_keys[OF d])
  have B: "k \<in> set (struggleAreas (learnerProfile (analyzePatterns ?s))) \<longleftrightarrow>
        (\<exists>p. map_of ?cp k = Some p \<and> is_struggle p)" for k
    unfolding analyzePatterns_areas by (rule filter_keys[OF d])
  have C: "set (strengthAreas (learnerProfile (analyzePatterns ?s))) \<inter>
           set (struggleAreas (learnerProfile (analyzePatterns ?s))) = {}"
    using A B not_strength_and_struggle by fastforce
  have B': "cid \<in> set (struggleAreas (learnerProfile (analyzePatterns ?s))) \<longleftrightarrow>
        (\<exists>p. map_of ?cp cid = Some p \<and> \<not> is_strength p \<and> is_struggle p)"
    using B[of cid] not_strength_and_struggle by blast
  show ?thesis using A[of cid] B' C not_strength_and_struggle[of q] by blast
qed

theorem strengths_and_struggles_witness:
  "strengthAreas (learnerProfile (analyzePatterns (run_calls ''session_1'' 0 mixed_session)))
     = [''building-blocks'']
   \<and> struggleAreas (learnerProfile (analyzePatterns (run_calls ''session_1'' 0 mixed_session)))
     = [''electron-shells'']
   \<and> set (strengthAreas (learnerProfile (analyzePatterns (run_calls ''session_1'' 0 mixed_session)))) \<inter>
     set (struggleAreas (learnerProfile (analyzePatterns (run_calls ''session_1'' 0 mixed_session)))) = {}
   \<and> (\<exists>p. map_of (conceptPerformance (run_calls ''session_1'' 0 mixed_session)) ''building-blocks'' = Some p
          \<and> is_strength p)"
  using strengths_and_struggles[of "''session_1''" 0 mixed_session "''building-blocks''"]
  by (simp add: mixed_session_profile)

text \<open>
  Claim C4. After an analysis pass at any point of any session, the pace is \<open>fast\<close> when
  the mean total time per attempted concept is below 60000 ms, \<open>slow\<close> when it is above
  180000 ms and \<open>medium\<close> otherwise (also when no concept was attempted); the style is
  \<open>visual\<close> when the visual interactions outnumber twice the chat messages, \<open>reading\<close>
  when the chat messages outnumber twice the visual interactions and \<open>mixed\<close> otherwise;
  the engagement is \<open>high\<close> when the mean level of the last five slider events is at least
  4, \<open>low\<close> when it is at most 2 and \<open>medium\<close> otherwise (also when there is no mean).
\<close>

theorem profile_classification:
  "pacePreference (learnerProfile (analyzePatterns (run_calls sid now cs))) =
     Some (pace_of (conceptPerformance (run_calls sid now cs)))
   \<and> learningStyle (learnerProfile (analyzePatterns (run_calls sid now cs))) =
     Some (style_of (events (run_calls sid now cs)))
   \<and> engagementLevel (learnerProfile (analyzePatterns (run_calls sid now cs))) =
     engagement_of (events (run_calls sid now cs))"
  using profile_of_reachable[OF run_calls_inv, of sid now cs]
  by (simp add: estimate_profile_def)

theorem profile_classification_witness:
  "pace_of (conceptPerformance (run_calls ''session_1'' 0 mixed_session)) = ''fast''
   \<and> style_of (events (run_calls ''session_1'' 0 mixed_session)) = ''visual''
   \<and> engagement_of (events (run_calls ''session_1'' 0 mixed_session)) = ''high''
   \<and> mean_time (conceptPerformance (run_calls ''session_1'' 0 mixed_session)) = 35000
   \<and> mean_level (recent_levels (events (run_calls ''session_1'' 0 mixed_session))) = Some (9 / 2)"
proof -
  have "mean_time (conceptPerformance (run_calls ''session_1'' 0 mixed_session)) = 35000"
    "mean_level (recent_levels (events (run_calls ''session_1'' 0 mixed_session))) = Some (9 / 2)"
    by code_simp+
  with profile_classification[of "''session_1''" 0 mixed_session] show ?thesis
    by (simp add: mixed_session_profile)
qed

text \<open>
  Claim C8. A second analysis pass changes nothing, and two analytics objects reached by
  any two sessions that hold the same event log and the same performance map get the same
  profile from an analysis pass.
\<close>

theorem estimator_deterministic:
  "analyzePatterns (analyzePatterns s) = analyzePatterns s
   \<and> (events (run_calls sid now cs) = events (run_calls sid' now' cs') \<and>
      conceptPerformance (run_calls sid now cs) = conceptPerformance (run_calls sid' now' cs')
      \<longrightarrow> learnerProfile (analyzePatterns (run_calls sid now cs)) =
          learnerProfile (analyzePatterns (run_calls sid' now' cs')))"
  by (simp add: analyzePatterns_idem profile_of_reachable[OF run_calls_inv])

lemma two_sessions_same_inputs:
  "events (run_calls ''session_1'' 0 [slider_event 5 5 4]) =
     events (run_calls ''session_1'' 1 [slider_event 5 6 4])"
  "conceptPerformance (run_calls ''session_1'' 0 [slider_event 5 5 4]) =
     conceptPerformance (run_calls ''session_1'' 1 [slider_event 5 6 4])"
  "startTime (run_calls ''session_1'' 0 [slider_event 5 5 4]) \<noteq>
     startTime (run_calls ''session_1'' 1 [slider_event 5 6 4])"
  by (simp_all add: run_calls_def slider_event_def trackEvent_def analyzePatterns_frame
      newLearningAnalytics_def Let_def)

theorem estimator_deterministic_witness:
  "events (run_calls ''session_1'' 0 [slider_event 5 5 4]) =
     events (run_calls ''session_1'' 1 [slider_event 5 6 4])
   \<and> conceptPerformance (run_calls ''session_1'' 0 [slider_event 5 5 4]) =
     conceptPerformance (run_calls ''session_1'' 1 [slider_event 5 6 4])
   \<and> startTime (run_calls ''session_1'' 0 [slider_event 5 5 4]) \<noteq>
     startTime (run_calls ''session_1'' 1 [slider_event 5 6 4])
   \<and> learnerProfile (analyzePatterns (run_calls ''session_1'' 0 [slider_event 5 5 4])) =
     learnerProfile (analyzePatterns (run_calls ''session_1'' 1 [slider_event 5 6 4]))
   \<and> engagementLevel (learnerProfile (analyzePatterns (run_calls ''session_1'' 0 [slider_event 5 5 4])))
       = ''high''"
proof -
  have e: "engagementLevel (learnerProfile (analyzePatterns (run_calls ''session_1'' 0 [slider_event 5 5 4])))
       = ''high''"
    by code_simp
  from estimator_deterministic[of _ "''session_1''" 0 "[slider_event 5 5 4]" "''session_1''" 1
      "[slider_event 5 6 4]"] two_sessions_same_inputs e
  show ?thesis by blast
qed

section \<open>The recommendation generator\<close>

text \<open>
  Claim C5. The recommendations are the review entry naming the struggle areas when there
  are any, then the pace entry when the pace is \<open>slow\<close>, then the style entry when the
  style is \<open>visual\<close>; the list is empty when there are no struggle areas, the pace is
  \<open>medium\<close> and the style is \<open>mixed\<close>.
\<close>

theorem recommendations_rules:
  "getRecommendations s =
     (if struggleAreas (learnerProfile s) = [] then []
      else [\<lparr> type_r = ''review'',
               message_r = ''Consider reviewing: '' @ join_with '', '' (struggleAreas (learnerProfile s)),
               priority = ''high'' \<rparr>]) @
     (if pacePreference (learnerProfile s) = Some ''slow''
      then [\<lparr> type_r = ''pace'',
               message_r = ''Take your time - depth of understanding is more important than speed'',
               priority = ''medium'' \<rparr>]
      else []) @
     (if learningStyle (learnerProfile s) = Some ''visual''
      then [\<lparr> type_r = ''style'',
               message_r = ''You learn well visually - spend more time with 3D models'',
               priority = ''low'' \<rparr>]
      else [])
   \<and> (struggleAreas (learnerProfile s) = [] \<and> pacePreference (learnerProfile s) = Some ''medium'' \<and>
      learningStyle (learnerProfile s) = Some ''mixed'' \<longrightarrow> getRecommendations s = [])"
  by (simp add: getRecommendations_def Let_def)

theorem recommendations_rules_witness:
  "struggleAreas (learnerProfile (run_calls ''session_1'' 0 [slider_event 5 5 3])) = []
   \<and> pacePreference (learnerProfile (run_calls ''session_1'' 0 [slider_event 5 5 3])) = Some ''medium''
   \<and> learningStyle (learnerProfile (run_calls ''session_1'' 0 [slider_event 5 5 3])) = Some ''mixed''
   \<and> getRecommendations (run_calls ''session_1'' 0 [slider_event 5 5 3]) = []"
proof -
  let ?s = "run_calls ''session_1'' 0 [slider_event 5 5 3]"
  have h: "struggleAreas (learnerProfile ?s) = []"
    "pacePreference (learnerProfile ?s) = Some ''medium''"
    "learningStyle (learnerProfile ?s) = Some ''mixed''"
    by code_simp+
  from recommendations_rules[of ?s] h show ?thesis by simp
qed

lemma mixed_session_recommendations:
  "getRecommendations (run_calls ''session_1'' 0 mixed_session) =
     [\<lparr>type_r = ''review'', message_r = ''Consider reviewing: electron-shells'', priority = ''high''\<rparr>,
      \<lparr>type_r = ''style'', message_r = ''You learn well visually - spend more time with 3D models'',
        priority = ''low''\<rparr>]"
  by code_simp

section \<open>The navigation gate\<close>

text \<open>
  The handlers are modelled as they run on one render of the component. The effect that
  logs a \<open>confidence_set\<close> event after a render in which the confidence level changed is a
  separate call of \<open>trackEvent\<close> and not part of a handler.
\<close>

lemma foldl_count:
  "foldl (\<lambda>n check. if P check then n + 1 else n) (k::nat) xs = k + length (filter P xs)"
  by (induction xs arbitrary: k) simp_all

lemma score_eq:
  "calculateKnowledgeCheckScore c answers =
     (if knowledgeChecks c = [] then 1
      else of_nat (length (filter (answered_correctly answers) (knowledgeChecks c)))
           / of_nat (length (knowledgeChecks c)))"
  by (simp add: calculateKnowledgeCheckScore_def Let_def foldl_count)

lemma score_one_all_correct:
  assumes "calculateKnowledgeCheckScore c answers = 1"
  shows "length (filter (answered_correctly answers) (knowledgeChecks c)) = length (knowledgeChecks c)"
proof (cases "knowledgeChecks c = []")
  case True
  then show ?thesis by simp
next
  case False
  with assms have "(of_nat (length (filter (answered_correctly answers) (knowledgeChecks c))) :: rat)
      = of_nat (length (knowledgeChecks c))"
    by (simp add: score_eq)
  then show ?thesis by (simp only: of_nat_eq_iff)
qed

lemma handleConceptComplete_frame:
  "currentScreen (handleConceptComplete cl c s) = currentScreen s"
  "currentModule (handleConceptComplete cl c s) = currentModule s"
  "currentConcept (handleConceptComplete cl c s) = currentConcept s"
  "showAdaptiveHelp (handleConceptComplete cl c s) = showAdaptiveHelp s"
  "adaptiveHelpContent (handleConceptComplete cl c s) = adaptiveHelpContent s"
  by (simp_all add: handleConceptComplete_def Let_def)

lemma handleConceptComplete_analytics:
  "analytics (handleConceptComplete cl c s) =
     trackConceptAttempt (now_attempt cl) (now_event1 cl) (now_event2 cl) (id_c c)
       (attempt_of cl c s) (analytics s)"
  by (simp add: handleConceptComplete_def Let_def attempt_of_def)

lemma handleConceptComplete_progress:
  "completedConcepts (progress (handleConceptComplete cl c s)) = completedConcepts (progress s) + 1"
  "conceptHistory (progress (handleConceptComplete cl c s)) =
     conceptHistory (progress s) @
       [\<lparr> id_h = id_c c, confidence_h = confidenceLevel s,
          knowledgeCheckScore = calculateKnowledgeCheckScore c (knowledgeCheckAnswers s),
          timestamp_h = iso_now cl \<rparr>]"
  by (simp_all add: handleConceptComplete_def Let_def)

lemma trackConceptAttempt_events:
  "\<exists>e. events (trackConceptAttempt n0 n1 n2 cid d a) = events a @ [e]"
  by (simp add: trackConceptAttempt_def Let_def trackEvent_frame)

lemma trackConceptAttempt_entry:
  "map_of (conceptPerformance (trackConceptAttempt n0 n1 n2 cid d a)) k =
     (if k = cid
      then Some \<lparr> attempts = attempts (performance_of a cid) @ [stored n0 d],
         totalTime = totalTime (performance_of a cid) + timeSpent d,
         averageConfidence = confidenceMean (attempts (performance_of a cid) @ [stored n0 d]),
         questionAccuracy = accuracyMean (attempts (performance_of a cid) @ [stored n0 d]),
         revisits = (if attempts (performance_of a cid) \<noteq> [] then revisits (performance_of a cid) + 1
                     else revisits (performance_of a cid)) \<rparr>
      else map_of (conceptPerformance a) k)"
  by (simp add: trackConceptAttempt_performance update_conv')

lemma performance_of_after:
  "attempts (performance_of (trackConceptAttempt n0 n1 n2 cid d a) cid) =
     attempts (performance_of a cid) @ [stored n0 d]"
  by (simp add: performance_of_def[of "trackConceptAttempt n0 n1 n2 cid d a"] trackConceptAttempt_entry)

lemma handleConceptComplete_kept: "records_kept s (handleConceptComplete cl c s)"
  unfolding records_kept_def
proof (intro conjI allI impI)
  show "\<exists>e. events (analytics (handleConceptComplete cl c s)) = events (analytics s) @ [e]"
    by (simp add: handleConceptComplete_analytics trackConceptAttempt_events)
  show "\<exists>h. conceptHistory (progress (handleConceptComplete cl c s)) = conceptHistory (progress s) @ [h]"
    by (simp add: handleConceptComplete_progress)
  fix k p assume "map_of (conceptPerformance (analytics s)) k = Some p"
  then show "\<exists>p' as. map_of (conceptPerformance (analytics (handleConceptComplete cl c s))) k = Some p' \<and>
                attempts p' = attempts p @ as"
    by (auto simp: handleConceptComplete_analytics trackConceptAttempt_entry performance_of_def)
qed

lemma records_kept_update:
  assumes "records_kept s t" and "analytics t' = analytics t" and "progress t' = progress t"
  shows "records_kept s t'"
  using assms by (simp add: records_kept_def)

lemma records_kept_help: "records_kept (s\<lparr>showAdaptiveHelp := b\<rparr>) t \<Longrightarrow> records_kept s t"
  by (simp add: records_kept_def)

lemma position_branches:
  fixes s1 :: AppState
  assumes "currentModule s1 = currentModule s" "currentConcept s1 = currentConcept s"
  shows "(if int (currentConcept s) < int (length (concepts (mods ! currentModule s))) - 1
          then s1\<lparr> currentConcept := currentConcept s + 1 \<rparr>
          else if int (currentModule s) < int (length mods) - 1
          then s1\<lparr> currentModule := currentModule s + 1, currentConcept := 0 \<rparr>
          else s1\<lparr> currentScreen := Complete \<rparr>)
       = (case next_position mods (currentModule s) (currentConcept s) (currentScreen s1) of
            (m, k, scr) \<Rightarrow> s1\<lparr> currentModule := m, currentConcept := k, currentScreen := scr \<rparr>)"
proof -
  have 1: "int (currentConcept s) < int (length (concepts (mods ! currentModule s))) - 1
          \<longleftrightarrow> currentConcept s + 1 < length (concepts (mods ! currentModule s))" by linarith
  have 2: "int (currentModule s) < int (length mods) - 1 \<longleftrightarrow> currentModule s + 1 < length mods"
    by linarith
  show ?thesis using assms unfolding 1 2 next_position_def
    by (auto intro!: AppState.equality)
qed

lemma handleNext_struggling:
  assumes "currentConceptData mods s = Some c" and "struggling c s"
  shows "handleNext mods cl s =
           Inr (triggerAdaptiveHelp c (calculateKnowledgeCheckScore c (knowledgeCheckAnswers s)) s)"
  using assms by (simp add: handleNext_def struggling_def Let_def)

lemma handleNext_advancing:
  assumes "currentConceptData mods s = Some c" and "\<not> struggling c s"
  shows "handleNext mods cl s =
     Inr ((case next_position mods (currentModule s) (currentConcept s) (currentScreen s) of
            (m, k, scr) \<Rightarrow>
              (handleConceptComplete cl c s)\<lparr> currentModule := m, currentConcept := k, currentScreen := scr \<rparr>)
          \<lparr> confidenceLevel := 3, chatHistory := [], knowledgeCheckAnswers := Map.empty,
            showAdaptiveHelp := False, adaptiveHelpContent := None \<rparr>)"
proof -
  have "handleNext mods cl s =
     Inr ((if int (currentConcept s) < int (length (concepts (mods ! currentModule s))) - 1
          then (handleConceptComplete cl c s)\<lparr> currentConcept := currentConcept s + 1 \<rparr>
          else if int (currentModule s) < int (length mods) - 1
          then (handleConceptComplete cl c s)\<lparr> currentModule := currentModule s + 1, currentConcept := 0 \<rparr>
          else (handleConceptComplete cl c s)\<lparr> currentScreen := Complete \<rparr>)
          \<lparr> confidenceLevel := 3, chatHistory := [], knowledgeCheckAnswers := Map.empty,
            showAdaptiveHelp := False, adaptiveHelpContent := None \<rparr>)"
    using assms unfolding handleNext_def struggling_def Let_def by (simp only: option.case if_False)
  then show ?thesis
    by (simp only: position_branches[OF handleConceptComplete_frame(2,3)] handleConceptComplete_frame)
qed

lemma onClick_ImReady_advancing:
  assumes "currentConceptData mods s = Some c"
  shows "onClick_ImReady mods cl s =
     Inr ((case next_position mods (currentModule s) (currentConcept s) (currentScreen s) of
            (m, k, scr) \<Rightarrow>
              (handleConceptComplete cl c (s\<lparr> showAdaptiveHelp := False \<rparr>))
                \<lparr> currentModule := m, currentConcept := k, currentScreen := scr \<rparr>)
          \<lparr> confidenceLevel := 3, chatHistory := [], knowledgeCheckAnswers := Map.empty \<rparr>)"
proof -
  let ?s1 = "handleConceptComplete cl c (s\<lparr> showAdaptiveHelp := False \<rparr>)"
  have "onClick_ImReady mods cl s =
     Inr ((if int (currentConcept s) < int (length (concepts (mods ! currentModule s))) - 1
          then ?s1\<lparr> currentConcept := currentConcept s + 1 \<rparr>
          else if int (currentModule s) < int (length mods) - 1
          then ?s1\<lparr> currentModule := currentModule s + 1, currentConcept := 0 \<rparr>
          else ?s1\<lparr> currentScreen := Complete \<rparr>)
          \<lparr> confidenceLevel := 3, chatHistory := [], knowledgeCheckAnswers := Map.empty \<rparr>)"
    using assms unfolding onClick_ImReady_def Let_def by (simp only: option.case)
  moreover have "currentModule ?s1 = currentModule s" "currentConcept ?s1 = currentConcept s"
    "currentScreen ?s1 = currentScreen s"
    by (simp_all add: handleConceptComplete_frame)
  ultimately show ?thesis
    by (simp only: position_branches)
qed

lemma onClick_same: "onClick_SkipAnyway mods cl s = onClick_ImReady mods cl s"
  by (simp only: onClick_SkipAnyway_def onClick_ImReady_def)

lemma triggerAdaptiveHelp_frame:
  "currentModule (triggerAdaptiveHelp c x s) = currentModule s"
  "currentConcept (triggerAdaptiveHelp c x s) = currentConcept s"
  "currentScreen (triggerAdaptiveHelp c x s) = currentScreen s"
  "analytics (triggerAdaptiveHelp c x s) = analytics s"
  "progress (triggerAdaptiveHelp c x s) = progress s"
  "showAdaptiveHelp (triggerAdaptiveHelp c x s) = True"
  by (simp_all add: triggerAdaptiveHelp_def Let_def)

lemma triggerAdaptiveHelp_content:
  "\<exists>h. adaptiveHelpContent (triggerAdaptiveHelp c x s) = Some h \<and>
       type_h h = ''struggling'' \<and>
       (alternativeExplanation h \<noteq> NoExplanation \<longleftrightarrow> confidenceLevel s \<le> 2) \<and>
       (2 < confidenceLevel s \<and> x < 1 / 2 \<longrightarrow>
          message_h h = MissedQuestions (length (missed_questions c s)) \<and>
          suggestions h = map (\<lambda>q. Revisit (question q)) (missed_questions c s))"
  by (simp add: triggerAdaptiveHelp_def Let_def missed_questions_def)

lemma sample_current:
  "currentConceptData sample_modules (sample_state 0 0 v a) =
     Some (sample_concept ''building-blocks'' ''The Building Blocks''
              [sample_check ''bb1'' ''Q1'' 2, sample_check ''bb2'' ''Q2'' 2])"
  "currentConceptData sample_modules (sample_state 0 1 v a) =
     Some (sample_concept ''electron-deep-dive'' ''The Electron''
              [sample_check ''ed1'' ''Q3'' 1, sample_check ''ed2'' ''Q4'' 2])"
  "currentConceptData sample_modules (sample_state 1 0 v a) =
     Some (sample_concept ''summary'' ''Summary'' [])"
  by (simp_all add: currentConceptData_def sample_modules_def sample_state_def)

lemma sample_score_right:
  "calculateKnowledgeCheckScore
     (sample_concept ''electron-deep-dive'' ''The Electron''
        [sample_check ''ed1'' ''Q3'' 1, sample_check ''ed2'' ''Q4'' 2]) answers_right = 1"
  by (simp add: score_eq sample_concept_def sample_check_def answered_correctly_def answers_right_def)

text \<open>
  Claim C6, as amended. When "next" is invoked on a current concept with a confidence
  rating of at most 2 or a knowledge-check accuracy below 0.5, the module index, the
  concept index and the screen stay as they are, nothing is recorded, and the adaptive
  help is shown; the help carries an alternative explanation exactly when the confidence
  rating is at most 2, and with a higher confidence it reports the number of knowledge
  checks that are not answered correctly and suggests revisiting each of them.
\<close>

theorem next_blocked_when_struggling:
  assumes "currentConceptData mods s = Some c" and "struggling c s"
  shows "\<exists>s' h. handleNext mods cl s = Inr s' \<and>
     currentModule s' = currentModule s \<and> currentConcept s' = currentConcept s \<and>
     currentScreen s' = currentScreen s \<and> analytics s' = analytics s \<and> progress s' = progress s \<and>
     showAdaptiveHelp s' \<and> adaptiveHelpContent s' = Some h \<and>
     (alternativeExplanation h \<noteq> NoExplanation \<longleftrightarrow> confidenceLevel s \<le> 2) \<and>
     (2 < confidenceLevel s \<longrightarrow>
        message_h h = MissedQuestions (length (missed_questions c s)) \<and>
        suggestions h = map (\<lambda>q. Revisit (question q)) (missed_questions c s))"
proof -
  let ?x = "calculateKnowledgeCheckScore c (knowledgeCheckAnswers s)"
  have low: "2 < confidenceLevel s \<Longrightarrow> ?x < 1 / 2"
    using assms(2) by (simp add: struggling_def)
  from triggerAdaptiveHelp_content[of c ?x s] low show ?thesis
    by (auto simp: handleNext_struggling[OF assms] triggerAdaptiveHelp_frame)
qed

theorem next_blocked_when_struggling_witness:
  "currentConceptData sample_modules (sample_state 0 0 1 Map.empty) =
     Some (sample_concept ''building-blocks'' ''The Building Blocks''
              [sample_check ''bb1'' ''Q1'' 2, sample_check ''bb2'' ''Q2'' 2])
   \<and> struggling (sample_concept ''building-blocks'' ''The Building Blocks''
              [sample_check ''bb1'' ''Q1'' 2, sample_check ''bb2'' ''Q2'' 2]) (sample_state 0 0 1 Map.empty)
   \<and> (\<exists>s' h. handleNext sample_modules sample_clock (sample_state 0 0 1 Map.empty) = Inr s' \<and>
     currentModule s' = 0 \<and> currentConcept s' = 0 \<and> currentScreen s' = Learning \<and>
     showAdaptiveHelp s' \<and> adaptiveHelpContent s' = Some h \<and>
     alternativeExplanation h \<noteq> NoExplanation)
   \<and> currentConceptData sample_modules (sample_state 0 0 3 Map.empty) =
     Some (sample_concept ''building-blocks'' ''The Building Blocks''
              [sample_check ''bb1'' ''Q1'' 2, sample_check ''bb2'' ''Q2'' 2])
   \<and> struggling (sample_concept ''building-blocks'' ''The Building Blocks''
              [sample_check ''bb1'' ''Q1'' 2, sample_check ''bb2'' ''Q2'' 2]) (sample_state 0 0 3 Map.empty)
   \<and> (\<exists>s' h. handleNext sample_modules sample_clock (sample_state 0 0 3 Map.empty) = Inr s' \<and>
     currentModule s' = 0 \<and> currentConcept s' = 0 \<and> currentScreen s' = Learning \<and>
     showAdaptiveHelp s' \<and> adaptiveHelpContent s' = Some h \<and>
     alternativeExplanation h = NoExplanation \<and> message_h h = MissedQuestions 2 \<and>
     suggestions h = [Revisit ''Q1'', Revisit ''Q2''])"
proof -
  let ?c = "sample_concept ''building-blocks'' ''The Building Blocks''
              [sample_check ''bb1'' ''Q1'' 2, sample_check ''bb2'' ''Q2'' 2]"
  let ?s = "sample_state 0 0 1 Map.empty"
  let ?t = "sample_state 0 0 3 Map.empty"
  have h1: "currentConceptData sample_modules ?s = Some ?c" by (rule sample_current)
  have h2: "struggling ?c ?s" by (simp add: struggling_def sample_state_def)
  from next_blocked_when_struggling[OF h1 h2, of sample_clock]
  obtain s' h where "handleNext sample_modules sample_clock ?s = Inr s'"
     "currentModule s' = currentModule ?s" "currentConcept s' = currentConcept ?s"
     "currentScreen s' = currentScreen ?s" "showAdaptiveHelp s'" "adaptiveHelpContent s' = Some h"
     "alternativeExplanation h \<noteq> NoExplanation \<longleftrightarrow> confidenceLevel ?s \<le> 2"
    by blast
  then have A: "\<exists>s' h. handleNext sample_modules sample_clock ?s = Inr s' \<and>
     currentModule s' = 0 \<and> currentConcept s' = 0 \<and> currentScreen s' = Learning \<and>
     showAdaptiveHelp s' \<and> adaptiveHelpContent s' = Some h \<and>
     alternativeExplanation h \<noteq> NoExplanation"
    by (simp add: sample_state_def)
  have g1: "currentConceptData sample_modules ?t = Some ?c" by (rule sample_current)
  have g2: "struggling ?c ?t"
    by (simp add: struggling_def sample_state_def score_eq sample_concept_def sample_check_def
        answered_correctly_def)
  have m: "missed_questions ?c ?t = [sample_check ''bb1'' ''Q1'' 2, sample_check ''bb2'' ''Q2'' 2]"
    by (simp add: missed_questions_def sample_state_def sample_concept_def sample_check_def
        answered_correctly_def)
  have c3: "confidenceLevel ?t = 3" "currentModule ?t = 0" "currentConcept ?t = 0"
    "currentScreen ?t = Learning"
    by (simp_all add: sample_state_def)
  from next_blocked_when_struggling[OF g1 g2, of sample_clock]
  obtain t' k where "handleNext sample_modules sample_clock ?t = Inr t'"
     "currentModule t' = currentModule ?t" "currentConcept t' = currentConcept ?t"
     "currentScreen t' = currentScreen ?t" "showAdaptiveHelp t'" "adaptiveHelpContent t' = Some k"
     "alternativeExplanation k \<noteq> NoExplanation \<longleftrightarrow> confidenceLevel ?t \<le> 2"
     "2 < confidenceLevel ?t \<longrightarrow>
        message_h k = MissedQuestions (length (missed_questions ?c ?t)) \<and>
        suggestions k = map (\<lambda>q. Revisit (question q)) (missed_questions ?c ?t)"
    by blast
  then have B: "\<exists>s' h. handleNext sample_modules sample_clock ?t = Inr s' \<and>
     currentModule s' = 0 \<and> currentConcept s' = 0 \<and> currentScreen s' = Learning \<and>
     showAdaptiveHelp s' \<and> adaptiveHelpContent s' = Some h \<and>
     alternativeExplanation h = NoExplanation \<and> message_h h = MissedQuestions 2 \<and>
     suggestions h = [Revisit ''Q1'', Revisit ''Q2'']"
    unfolding m c3 by (simp add: sample_check_def)
  from h1 h2 A g1 g2 B show ?thesis by blast
qed

text \<open>
  Claim C6 as stated promises an alternative explanation in every remediation. With a
  confidence of 3 and no correct answer the help lists the two missed questions, and its
  alternative explanation is the empty text.
\<close>

theorem help_without_alternative_explanation:
  "calculateKnowledgeCheckScore
     (sample_concept ''building-blocks'' ''The Building Blocks''
        [sample_check ''bb1'' ''Q1'' 2, sample_check ''bb2'' ''Q2'' 2]) Map.empty = 0
   \<and> handleNext sample_modules sample_clock (sample_state 0 0 3 Map.empty) =
     Inr ((sample_state 0 0 3 Map.empty)
           \<lparr> adaptiveHelpContent :=
               Some \<lparr> type_h = ''struggling'', message_h = MissedQuestions 2,
                      suggestions = [Revisit ''Q1'', Revisit ''Q2''],
                      alternativeExplanation = NoExplanation \<rparr>,
             showAdaptiveHelp := True \<rparr>)"
proof -
  let ?c = "sample_concept ''building-blocks'' ''The Building Blocks''
              [sample_check ''bb1'' ''Q1'' 2, sample_check ''bb2'' ''Q2'' 2]"
  let ?s = "sample_state 0 0 3 Map.empty"
  have sc: "calculateKnowledgeCheckScore ?c Map.empty = 0"
    by (simp add: score_eq sample_concept_def sample_check_def answered_correctly_def)
  have a: "knowledgeCheckAnswers ?s = Map.empty" by (simp add: sample_state_def)
  have st: "struggling ?c ?s" by (simp add: struggling_def a sc)
  have "triggerAdaptiveHelp ?c 0 ?s = ?s
           \<lparr> adaptiveHelpContent :=
               Some \<lparr> type_h = ''struggling'', message_h = MissedQuestions 2,
                      suggestions = [Revisit ''Q1'', Revisit ''Q2''],
                      alternativeExplanation = NoExplanation \<rparr>,
             showAdaptiveHelp := True \<rparr>"
    by (simp add: triggerAdaptiveHelp_def Let_def sample_state_def sample_concept_def
        sample_check_def answered_correctly_def)
  with handleNext_struggling[OF sample_current(1) st, of sample_clock] sc a show ?thesis by simp
qed

text \<open>
  Claim C7. When "next" is invoked on a current concept with confidence 5 and accuracy 1,
  the help is not shown, the attempt (confidence 5, all questions correct) is appended to
  the concept's attempts, the completed count goes up by one, and the new position is the
  next concept of the module, else the first concept of the next module, else the
  completion screen.
\<close>

theorem next_advances_when_confident:
  assumes "currentConceptData mods s = Some c" and "confidenceLevel s = 5"
    and "calculateKnowledgeCheckScore c (knowledgeCheckAnswers s) = 1"
  shows "\<exists>s'. handleNext mods cl s = Inr s' \<and>
      (currentModule s', currentConcept s', currentScreen s') =
         next_position mods (currentModule s) (currentConcept s) (currentScreen s) \<and>
      \<not> showAdaptiveHelp s' \<and> adaptiveHelpContent s' = None \<and>
      analytics s' = trackConceptAttempt (now_attempt cl) (now_event1 cl) (now_event2 cl) (id_c c)
                       (attempt_of cl c s) (analytics s) \<and>
      attempts (performance_of (analytics s') (id_c c)) =
        attempts (performance_of (analytics s) (id_c c)) @ [stored (now_attempt cl) (attempt_of cl c s)] \<and>
      confidence (attempt_of cl c s) = 5 \<and>
      questionsCorrect (attempt_of cl c s) = questionsTotal (attempt_of cl c s) \<and>
      completedConcepts (progress s') = completedConcepts (progress s) + 1"
proof -
  have ns: "\<not> struggling c s" using assms(2,3) by (simp add: struggling_def)
  have q: "questionsCorrect (attempt_of cl c s) = questionsTotal (attempt_of cl c s)"
    using score_one_all_correct[OF assms(3)] by (simp add: attempt_of_def)
  have c5: "confidence (attempt_of cl c s) = 5" using assms(2) by (simp add: attempt_of_def)
  show ?thesis
    unfolding handleNext_advancing[OF assms(1) ns]
    using q c5
    by (simp add: handleConceptComplete_frame handleConceptComplete_analytics
        handleConceptComplete_progress performance_of_after split: prod.split)
qed

theorem next_advances_when_confident_witness:
  "currentConceptData sample_modules (sample_state 0 1 5 answers_right) =
     Some (sample_concept ''electron-deep-dive'' ''The Electron''
              [sample_check ''ed1'' ''Q3'' 1, sample_check ''ed2'' ''Q4'' 2])
   \<and> confidenceLevel (sample_state 0 1 5 answers_right) = 5
   \<and> calculateKnowledgeCheckScore
        (sample_concept ''electron-deep-dive'' ''The Electron''
              [sample_check ''ed1'' ''Q3'' 1, sample_check ''ed2'' ''Q4'' 2])
        (knowledgeCheckAnswers (sample_state 0 1 5 answers_right)) = 1
   \<and> (\<exists>s'. handleNext sample_modules sample_clock (sample_state 0 1 5 answers_right) = Inr s' \<and>
          currentModule s' = 1 \<and> currentConcept s' = 0 \<and> currentScreen s' = Learning \<and>
          \<not> showAdaptiveHelp s' \<and> completedConcepts (progress s') = 1)"
proof -
  let ?c = "sample_concept ''electron-deep-dive'' ''The Electron''
              [sample_check ''ed1'' ''Q3'' 1, sample_check ''ed2'' ''Q4'' 2]"
  let ?s = "sample_state 0 1 5 answers_right"
  have h1: "currentConceptData sample_modules ?s = Some ?c" by (rule sample_current)
  have h2: "confidenceLevel ?s = 5" by (simp add: sample_state_def)
  have h3: "calculateKnowledgeCheckScore ?c (knowledgeCheckAnswers ?s) = 1"
    using sample_score_right by (simp add: sample_state_def)
  have np: "next_position sample_modules (currentModule ?s) (currentConcept ?s) (currentScreen ?s)
              = (1, 0, Learning)"
    by (simp add: next_position_def sample_modules_def sample_state_def)
  have pr: "completedConcepts (progress ?s) = 0" by (simp add: sample_state_def)
  from next_advances_when_confident[OF h1 h2 h3, of sample_clock]
  have "\<exists>s'. handleNext sample_modules sample_clock ?s = Inr s' \<and>
          currentModule s' = 1 \<and> currentConcept s' = 0 \<and> currentScreen s' = Learning \<and>
          \<not> showAdaptiveHelp s' \<and> completedConcepts (progress s') = 1"
    unfolding np pr by auto
  with h1 h2 h3 show ?thesis by blast
qed

text \<open>
  Claim C9. For a current concept without knowledge checks the computed accuracy is 1,
  and "next" shows the adaptive help exactly when the confidence rating is at most 2;
  otherwise it completes the concept.
\<close>

theorem no_checks_blocked_only_by_confidence:
  assumes "currentConceptData mods s = Some c" and "knowledgeChecks c = []"
  shows "calculateKnowledgeCheckScore c (knowledgeCheckAnswers s) = 1 \<and>
     (struggling c s \<longleftrightarrow> confidenceLevel s \<le> 2) \<and>
     (\<exists>s'. handleNext mods cl s = Inr s' \<and>
        (showAdaptiveHelp s' \<longleftrightarrow> confidenceLevel s \<le> 2) \<and>
        completedConcepts (progress s') =
          (if confidenceLevel s \<le> 2 then completedConcepts (progress s)
           else completedConcepts (progress s) + 1))"
proof -
  have sc: "calculateKnowledgeCheckScore c (knowledgeCheckAnswers s) = 1"
    using assms(2) by (simp add: score_eq)
  then have st: "struggling c s \<longleftrightarrow> confidenceLevel s \<le> 2" by (simp add: struggling_def)
  have "\<exists>s'. handleNext mods cl s = Inr s' \<and>
        (showAdaptiveHelp s' \<longleftrightarrow> confidenceLevel s \<le> 2) \<and>
        completedConcepts (progress s') =
          (if confidenceLevel s \<le> 2 then completedConcepts (progress s)
           else completedConcepts (progress s) + 1)"
  proof (cases "confidenceLevel s \<le> 2")
    case True
    with st have "struggling c s" by simp
    from handleNext_struggling[OF assms(1) this] True show ?thesis
      by (simp add: triggerAdaptiveHelp_frame)
  next
    case False
    with st have "\<not> struggling c s" by simp
    from handleNext_advancing[OF assms(1) this] False show ?thesis
      by (simp add: handleConceptComplete_progress split: prod.split)
  qed
  with sc st show ?thesis by blast
qed

theorem no_checks_blocked_only_by_confidence_witness:
  "currentConceptData sample_modules (sample_state 1 0 3 Map.empty) =
     Some (sample_concept ''summary'' ''Summary'' [])
   \<and> knowledgeChecks (sample_concept ''summary'' ''Summary'' []) = []
   \<and> calculateKnowledgeCheckScore (sample_concept ''summary'' ''Summary'' [])
        (knowledgeCheckAnswers (sample_state 1 0 3 Map.empty)) = 1
   \<and> (\<exists>s'. handleNext sample_modules sample_clock (sample_state 1 0 3 Map.empty) = Inr s' \<and>
          \<not> showAdaptiveHelp s' \<and> completedConcepts (progress s') = 1)"
proof -
  let ?c = "sample_concept ''summary'' ''Summary'' []"
  let ?s = "sample_state 1 0 3 Map.empty"
  have h1: "currentConceptData sample_modules ?s = Some ?c" by (rule sample_current)
  have h2: "knowledgeChecks ?c = []" by (simp add: sample_concept_def)
  have c3: "confidenceLevel ?s = 3" "completedConcepts (progress ?s) = 0"
    by (simp_all add: sample_state_def)
  from no_checks_blocked_only_by_confidence[OF h1 h2, of sample_clock]
  have "calculateKnowledgeCheckScore ?c (knowledgeCheckAnswers ?s) = 1 \<and>
        (\<exists>s'. handleNext sample_modules sample_clock ?s = Inr s' \<and>
          \<not> showAdaptiveHelp s' \<and> completedConcepts (progress s') = 1)"
    unfolding c3 by auto
  with h1 h2 show ?thesis by blast
qed

text \<open>
  Claim C10. The two override buttons of the adaptive help do the same, and with a
  successful "next" they end in the same state up to the stored help content: the
  confidence level is 3, the chat history and the answers are empty, and the event log, the
  performance map and the progress history keep what they held.
\<close>

theorem advancement_resets_interaction_state:
  assumes "currentConceptData mods s = Some c"
  shows "onClick_SkipAnyway mods cl s = onClick_ImReady mods cl s \<and>
    (\<exists>s'. onClick_ImReady mods cl s = Inr s' \<and> interaction_reset s' \<and> records_kept s s' \<and>
       (\<not> struggling c s \<longrightarrow>
          handleNext mods cl s = Inr (s'\<lparr>adaptiveHelpContent := None\<rparr>) \<and>
          interaction_reset (s'\<lparr>adaptiveHelpContent := None\<rparr>) \<and>
          records_kept s (s'\<lparr>adaptiveHelpContent := None\<rparr>)))"
proof -
  let ?np = "next_position mods (currentModule s) (currentConcept s) (currentScreen s)"
  let ?s1 = "handleConceptComplete cl c (s\<lparr> showAdaptiveHelp := False \<rparr>)"
  define s' where "s' = (case ?np of (m, k, scr) \<Rightarrow>
          ?s1\<lparr> currentModule := m, currentConcept := k, currentScreen := scr \<rparr>)
          \<lparr> confidenceLevel := 3, chatHistory := [], knowledgeCheckAnswers := Map.empty \<rparr>"
  have r: "onClick_ImReady mods cl s = Inr s'"
    unfolding s'_def by (rule onClick_ImReady_advancing[OF assms])
  have ir: "interaction_reset s'" by (simp add: s'_def interaction_reset_def)
  have "records_kept (s\<lparr> showAdaptiveHelp := False \<rparr>) ?s1" by (rule handleConceptComplete_kept)
  then have "records_kept s ?s1" by (rule records_kept_help)
  then have rk: "records_kept s s'"
    by (rule records_kept_update) (simp_all add: s'_def split: prod.split)
  have hn: "handleNext mods cl s = Inr (s'\<lparr>adaptiveHelpContent := None\<rparr>)" if "\<not> struggling c s"
    unfolding handleNext_advancing[OF assms that] s'_def
    by (cases ?np) (simp add: handleConceptComplete_def Let_def)
  have ir2: "interaction_reset (s'\<lparr>adaptiveHelpContent := None\<rparr>)"
    using ir by (simp add: interaction_reset_def)
  have rk2: "records_kept s (s'\<lparr>adaptiveHelpContent := None\<rparr>)"
    using rk by (rule records_kept_update) simp_all
  from onClick_same r ir rk hn ir2 rk2 show ?thesis by blast
qed

theorem advancement_resets_interaction_state_witness:
  "currentConceptData sample_modules (sample_state 0 1 5 answers_right) =
     Some (sample_concept ''electron-deep-dive'' ''The Electron''
              [sample_check ''ed1'' ''Q3'' 1, sample_check ''ed2'' ''Q4'' 2])
   \<and> \<not> struggling (sample_concept ''electron-deep-dive'' ''The Electron''
              [sample_check ''ed1'' ''Q3'' 1, sample_check ''ed2'' ''Q4'' 2])
          (sample_state 0 1 5 answers_right)
   \<and> onClick_SkipAnyway sample_modules sample_clock (sample_state 0 1 5 answers_right) =
       onClick_ImReady sample_modules sample_clock (sample_state 0 1 5 answers_right)
   \<and> (\<exists>s'. onClick_ImReady sample_modules sample_clock (sample_state 0 1 5 answers_right) = Inr s' \<and>
          handleNext sample_modules sample_clock (sample_state 0 1 5 answers_right) =
            Inr (s'\<lparr>adaptiveHelpContent := None\<rparr>) \<and>
          confidenceLevel s' = 3 \<and> chatHistory s' = [] \<and> knowledgeCheckAnswers s' = Map.empty \<and>
          records_kept (sample_state 0 1 5 answers_right) s')"
proof -
  let ?c = "sample_concept ''electron-deep-dive'' ''The Electron''
              [sample_check ''ed1'' ''Q3'' 1, sample_check ''ed2'' ''Q4'' 2]"
  let ?s = "sample_state 0 1 5 answers_right"
  have h1: "currentConceptData sample_modules ?s = Some ?c" by (rule sample_current)
  have h2: "\<not> struggling ?c ?s"
    using sample_score_right by (simp add: struggling_def sample_state_def)
  from advancement_resets_interaction_state[OF h1, of sample_clock] h2
  have "onClick_SkipAnyway sample_modules sample_clock ?s = onClick_ImReady sample_modules sample_clock ?s
     \<and> (\<exists>s'. onClick_ImReady sample_modules sample_clock ?s = Inr s' \<and>
          handleNext sample_modules sample_clock ?s = Inr (s'\<lparr>adaptiveHelpContent := None\<rparr>) \<and>
          confidenceLevel s' = 3 \<and> chatHistory s' = [] \<and> knowledgeCheckAnswers s' = Map.empty \<and>
          records_kept ?s s')"
    unfolding interaction_reset_def by blast
  with h1 h2 show ?thesis by blast
qed

text \<open>The unguarded division seen from the application: completing the concept without
  knowledge checks of the sample catalog records the score 1 in the progress history and
  the accuracy NaN in the analytics object.\<close>

lemma app_level_zero_questions:
  "(case handleNext sample_modules sample_clock (sample_state 1 0 5 Map.empty) of
      Inl e \<Rightarrow> None
    | Inr s' \<Rightarrow>
        Some (map knowledgeCheckScore (conceptHistory (progress s')),
              map_option questionAccuracy (map_of (conceptPerformance (analytics s')) ''summary'')))
   = Some ([1], Some NaN)"
  by code_simp

end
